theory Spec2Isabelle
  imports Main "HOL-Library.Sublist" "HOL-Library.List_Lexorder" "HOL-Library.AList"
begin

chapter \<open>SBOM vulnerability correlation engine\<close>

text \<open>
  A shallow embedding of the matching, parsing and scan-orchestration code of the
  SBOM checker backend (\<^verbatim>\<open>backend/app/services/scanner.py\<close>,
  \<^verbatim>\<open>sbom_parser.py\<close>, \<^verbatim>\<open>trivy_service.py\<close> and
  \<^verbatim>\<open>celery_worker.py\<close>), followed by the properties established about it.
  Python exceptions are values, dictionaries are association lists or maps, and the
  calls into libraries outside the repository (the version parser, the JSON and XML
  decoders, the date parser, the database) are parameters or explicit inputs.
\<close>

section \<open>Strings\<close>

text \<open>
  Python strings are modelled as \<^typ>\<open>string\<close>. \<^verbatim>\<open>str.lower\<close> is
  modelled on the ASCII letters and leaves every other character unchanged. Python
  lowercases a few characters beyond ASCII to ASCII letters (the Kelvin sign to
  \<^verbatim>\<open>k\<close>); these are outside the model. What is proved of the normalized name
  below does not depend on what lowercasing does.
\<close>

definition ascii_upper :: string where
  "ascii_upper = ''ABCDEFGHIJKLMNOPQRSTUVWXYZ''"

definition ascii_lower :: string where
  "ascii_lower = ''abcdefghijklmnopqrstuvwxyz''"

definition ascii_digits :: string where
  "ascii_digits = ''0123456789''"

definition lower_char :: "char \<Rightarrow> char" where
  "lower_char c = (case map_of (zip ascii_upper ascii_lower) c of Some d \<Rightarrow> d | None \<Rightarrow> c)"

definition lower :: "string \<Rightarrow> string" where
  "lower s = map lower_char s"

text \<open>\<^verbatim>\<open>needle in haystack\<close> on strings: the needle occurs contiguously.\<close>

fun substring_of :: "string \<Rightarrow> string \<Rightarrow> bool" where
  "substring_of xs [] = (xs = [])"
| "substring_of xs (y # ys) = (prefix xs (y # ys) \<or> substring_of xs ys)"

text \<open>\<^verbatim>\<open>s.split(sep)\<close> for a one-character separator: never an empty list.\<close>

fun split_on :: "char \<Rightarrow> string \<Rightarrow> string list" where
  "split_on sep [] = [[]]"
| "split_on sep (c # cs) =
     (if c = sep then [] # split_on sep cs
      else (case split_on sep cs of
              [] \<Rightarrow> [[c]]
            | p # ps \<Rightarrow> (c # p) # ps))"

text \<open>Truthiness of an \<^verbatim>\<open>Optional[str]\<close>: \<^verbatim>\<open>None\<close> and \<^verbatim>\<open>""\<close> are falsy.\<close>

fun truthy :: "string option \<Rightarrow> bool" where
  "truthy None = False"
| "truthy (Some s) = (s \<noteq> [])"


section \<open>Name normalization\<close>

text \<open>
  \<^verbatim>\<open>VulnerabilityScanner._normalize_component_name\<close>:
  \<^verbatim>\<open>name.lower()\<close>, then \<^verbatim>\<open>re.sub(r'[^a-z0-9]', '_', .)\<close>,
  then \<^verbatim>\<open>re.sub(r'_+', '_', .)\<close>, then \<^verbatim>\<open>.strip('_')\<close>.
\<close>

definition is_az09 :: "char \<Rightarrow> bool" where
  "is_az09 c = (c \<in> set (ascii_lower @ ascii_digits))"

definition sub_non_az09 :: "string \<Rightarrow> string" where
  "sub_non_az09 s = map (\<lambda>c. if is_az09 c then c else CHR ''_'') s"

function sub_underscores :: "string \<Rightarrow> string" where
  "sub_underscores [] = []"
| "sub_underscores (c # cs) =
     (if c = CHR ''_'' then CHR ''_'' # sub_underscores (dropWhile (\<lambda>d. d = CHR ''_'') cs)
      else c # sub_underscores cs)"
  by pat_completeness auto
termination
  by (relation "measure length") (auto simp: less_Suc_eq_le length_dropWhile_le)

definition strip_underscore :: "string \<Rightarrow> string" where
  "strip_underscore s =
     rev (dropWhile (\<lambda>d. d = CHR ''_'') (rev (dropWhile (\<lambda>d. d = CHR ''_'') s)))"

definition normalize_component_name :: "string \<Rightarrow> string" where
  "normalize_component_name name =
     strip_underscore (sub_underscores (sub_non_az09 (lower name)))"

text \<open>
  The specification's wording of the same function, for comparison: every maximal run
  of characters outside \<^verbatim>\<open>[a-z0-9]\<close> of the lowercased name becomes one
  underscore, and leading and trailing underscores are removed.
\<close>

function collapse_runs :: "string \<Rightarrow> string" where
  "collapse_runs [] = []"
| "collapse_runs (c # cs) =
     (if is_az09 c then c # collapse_runs cs
      else CHR ''_'' # collapse_runs (dropWhile (\<lambda>d. \<not> is_az09 d) cs))"
  by pat_completeness auto
termination
  by (relation "measure length") (auto simp: less_Suc_eq_le length_dropWhile_le)

definition spec_normalize :: "string \<Rightarrow> string" where
  "spec_normalize name = strip_underscore (collapse_runs (lower name))"


section \<open>CPE product matching\<close>

text \<open>
  \<^verbatim>\<open>VulnerabilityScanner._match_cpe_product(cpe, component_name)\<close>; the second
  argument is the already normalized component name.
\<close>

definition match_cpe_product :: "string \<Rightarrow> string \<Rightarrow> bool" where
  "match_cpe_product cpe component_name =
     (let parts = split_on CHR '':'' cpe in
      if length parts < 5 then False
      else
        let product = lower (parts ! 4);
            vendor = (if length parts > 3 then lower (parts ! 3) else [])
        in if substring_of product component_name \<or> substring_of component_name product
           then True
           else if vendor \<noteq> [] \<and>
                   (substring_of vendor component_name \<or>
                    substring_of (vendor @ ''_'' @ product) component_name)
           then True
           else False)"

text \<open>
  The specification's wording of name eligibility, for comparison: vendor and product
  are the 4th and 5th colon-delimited fields, and any of the four substring tests
  makes the criterion eligible.
\<close>

definition spec_name_eligible :: "string \<Rightarrow> string \<Rightarrow> bool" where
  "spec_name_eligible cpe normalized_name =
     (let parts = split_on CHR '':'' cpe in
      5 \<le> length parts \<and>
      (let vendor = parts ! 3; product = parts ! 4
       in substring_of product normalized_name \<or> substring_of normalized_name product \<or>
          substring_of vendor normalized_name \<or>
          substring_of (vendor @ ''_'' @ product) normalized_name))"


section \<open>Version range evaluation\<close>

text \<open>
  \<^verbatim>\<open>VulnerabilityScanner._check_version_range\<close>. The version parser
  \<^verbatim>\<open>packaging.version.parse\<close> is a library outside the repository and is a
  parameter \<open>parse\<close>: \<^const>\<open>None\<close> stands for the exception it raises on a string
  that is not a version, and its results are compared in a linear order. The body of
  the \<^verbatim>\<open>try\<close> block either raises, returns, or falls through to the next
  statement.
\<close>

datatype flow = Raised | Returned bool | Continue

fun then_flow :: "flow \<Rightarrow> flow \<Rightarrow> flow" where
  "then_flow Continue f = f"
| "then_flow Raised _ = Raised"
| "then_flow (Returned b) _ = Returned b"

text \<open>
  One \<^verbatim>\<open>if bound: b = parse(bound); if comp_ver <violates> b: return False\<close>
  statement; the test \<^verbatim>\<open>if bound\<close> skips \<^verbatim>\<open>None\<close> and the empty string.
\<close>

definition bound_check ::
  "(string \<Rightarrow> 'v option) \<Rightarrow> ('v \<Rightarrow> 'v \<Rightarrow> bool) \<Rightarrow> 'v \<Rightarrow> string option \<Rightarrow> flow" where
  "bound_check parse violates comp_ver bound =
     (case bound of
        None \<Rightarrow> Continue
      | Some s \<Rightarrow>
          if s = [] then Continue
          else (case parse s of
                  None \<Rightarrow> Raised
                | Some b \<Rightarrow> if violates comp_ver b then Returned False else Continue))"

definition version_range_try ::
  "(string \<Rightarrow> ('v::linorder) option) \<Rightarrow> string \<Rightarrow>
   string option \<Rightarrow> string option \<Rightarrow> string option \<Rightarrow> string option \<Rightarrow> flow" where
  "version_range_try parse component_version version_start_including
       version_start_excluding version_end_including version_end_excluding =
     (case parse component_version of
        None \<Rightarrow> Raised
      | Some comp_ver \<Rightarrow>
          then_flow (bound_check parse (\<lambda>c s. c < s) comp_ver version_start_including)
         (then_flow (bound_check parse (\<lambda>c s. c \<le> s) comp_ver version_start_excluding)
         (then_flow (bound_check parse (\<lambda>c e. c > e) comp_ver version_end_including)
         (then_flow (bound_check parse (\<lambda>c e. c \<ge> e) comp_ver version_end_excluding)
                    (Returned True)))))"

definition version_range_except :: "string \<Rightarrow> string option \<Rightarrow> bool" where
  "version_range_except component_version version_start_including =
     (if truthy version_start_including \<and> Some component_version = version_start_including
      then True else False)"

definition check_version_range ::
  "(string \<Rightarrow> ('v::linorder) option) \<Rightarrow> string \<Rightarrow>
   string option \<Rightarrow> string option \<Rightarrow> string option \<Rightarrow> string option \<Rightarrow> bool" where
  "check_version_range parse component_version version_start_including
       version_start_excluding version_end_including version_end_excluding =
     (case version_range_try parse component_version version_start_including
             version_start_excluding version_end_including version_end_excluding of
        Returned b \<Rightarrow> b
      | Raised \<Rightarrow> version_range_except component_version version_start_including
      | Continue \<Rightarrow> False)"

text \<open>
  What the specification asks of a version against one optional bound: an absent bound
  holds, a present one holds when it parses and the relation holds.
\<close>

definition bound_holds ::
  "(string \<Rightarrow> 'v option) \<Rightarrow> ('v \<Rightarrow> 'v \<Rightarrow> bool) \<Rightarrow> 'v \<Rightarrow> string option \<Rightarrow> bool" where
  "bound_holds parse rel v bound =
     (case bound of
        None \<Rightarrow> True
      | Some s \<Rightarrow> (case parse s of None \<Rightarrow> False | Some b \<Rightarrow> rel v b))"

definition parseable :: "(string \<Rightarrow> 'v option) \<Rightarrow> string option \<Rightarrow> bool" where
  "parseable parse bound = (case bound of None \<Rightarrow> True | Some s \<Rightarrow> parse s \<noteq> None)"

text \<open>
  Modelled from the spec: \<^verbatim>\<open>packaging.version.parse\<close>, the library's version
  parser, is missing from the sources. The specification describes its versions as
  dotted release segments compared numerically segment by segment
  (\<^verbatim>\<open>1.9.0 < 1.10.0\<close>); this instance accepts exactly the strings of non-empty
  decimal segments separated by dots, ignores trailing zero segments
  (\<^verbatim>\<open>1.0 = 1.0.0\<close>) and compares the segment lists lexicographically.
\<close>

type_synonym release = "nat list"

definition digit_value :: "char \<Rightarrow> nat" where
  "digit_value c = (case map_of (zip ascii_digits [0, 1, 2, 3, 4, 5, 6, 7, 8, 9]) c of
                      Some n \<Rightarrow> n | None \<Rightarrow> 0)"

definition segment_value :: "string \<Rightarrow> nat" where
  "segment_value s = foldl (\<lambda>n c. 10 * n + digit_value c) 0 s"

definition is_segment :: "string \<Rightarrow> bool" where
  "is_segment s = (s \<noteq> [] \<and> list_all (\<lambda>c. c \<in> set ascii_digits) s)"

definition strip_trailing_zeros :: "nat list \<Rightarrow> nat list" where
  "strip_trailing_zeros ns = rev (dropWhile (\<lambda>n. n = 0) (rev ns))"

definition parse_release :: "string \<Rightarrow> release option" where
  "parse_release s =
     (let segments = split_on CHR ''.'' s in
      if list_all is_segment segments
      then Some (strip_trailing_zeros (map segment_value segments))
      else None)"


section \<open>The matcher\<close>

text \<open>
  \<^verbatim>\<open>Component\<close> of \<^verbatim>\<open>sbom_parser.py\<close>, one entry of a vulnerability's
  \<^verbatim>\<open>cpe_match\<close> list (a dictionary read with \<^verbatim>\<open>.get\<close>, so every key may be
  absent) and the columns of a \<^verbatim>\<open>Vulnerability\<close> row that the matcher reads.
  The \<^verbatim>\<open>cpe_match\<close> column is NULL, a decoded list, or a string still to be
  decoded by \<^verbatim>\<open>json.loads\<close>.
\<close>

record component =
  comp_name :: string
  comp_version :: string
  purl :: "string option"
  component_type :: "string option"

record cpe_match_entry =
  criteria :: "string option"
  versionStartIncluding :: "string option"
  versionStartExcluding :: "string option"
  versionEndIncluding :: "string option"
  versionEndExcluding :: "string option"

datatype cpe_column = CpeNull | CpeList "cpe_match_entry list" | CpeText string

record vulnerability =
  vuln_id :: nat
  cve_id :: string
  severity :: "string option"
  cpe_match :: cpe_column

text \<open>
  The loop of \<^verbatim>\<open>_is_vulnerable\<close> over the criteria: the first criterion that
  passes the name check and the version check returns \<^verbatim>\<open>True\<close>.
\<close>

fun criteria_loop ::
  "(string \<Rightarrow> ('v::linorder) option) \<Rightarrow> component \<Rightarrow> string \<Rightarrow> cpe_match_entry list \<Rightarrow> bool" where
  "criteria_loop parse component normalized_name [] = False"
| "criteria_loop parse component normalized_name (entry # entries) =
     (let crit = (case criteria entry of None \<Rightarrow> [] | Some c \<Rightarrow> c) in
      if match_cpe_product crit normalized_name then
        if check_version_range parse (comp_version component)
             (versionStartIncluding entry) (versionStartExcluding entry)
             (versionEndIncluding entry) (versionEndExcluding entry)
        then True
        else criteria_loop parse component normalized_name entries
      else criteria_loop parse component normalized_name entries)"

text \<open>
  \<^verbatim>\<open>VulnerabilityScanner._is_vulnerable\<close>; \<open>loads\<close> is \<^verbatim>\<open>json.loads\<close>
  on a string-valued column, \<^const>\<open>None\<close> when it raises.
\<close>

definition is_vulnerable ::
  "(string \<Rightarrow> ('v::linorder) option) \<Rightarrow> (string \<Rightarrow> cpe_match_entry list option) \<Rightarrow>
   component \<Rightarrow> vulnerability \<Rightarrow> bool" where
  "is_vulnerable parse loads component vuln =
     (case cpe_match vuln of
        CpeNull \<Rightarrow> False
      | CpeList entries \<Rightarrow>
          if entries = [] then False
          else criteria_loop parse component (normalize_component_name (comp_name component)) entries
      | CpeText s \<Rightarrow>
          if s = [] then False
          else (case loads s of
                  None \<Rightarrow> False
                | Some entries \<Rightarrow>
                    criteria_loop parse component (normalize_component_name (comp_name component)) entries))"

text \<open>
  \<^verbatim>\<open>VulnerabilityScanner._find_vulnerabilities_for_component\<close>; \<open>store\<close> is the
  content of the vulnerability table, queried for the rows whose \<^verbatim>\<open>cpe_match\<close>
  is not NULL.
\<close>

definition find_vulnerabilities_for_component ::
  "(string \<Rightarrow> ('v::linorder) option) \<Rightarrow> (string \<Rightarrow> cpe_match_entry list option) \<Rightarrow>
   vulnerability list \<Rightarrow> component \<Rightarrow> vulnerability list" where
  "find_vulnerabilities_for_component parse loads store component =
     (let candidates = filter (\<lambda>v. cpe_match v \<noteq> CpeNull) store
      in filter (is_vulnerable parse loads component) candidates)"

text \<open>
  \<^verbatim>\<open>VulnerabilityScanner.scan_components\<close>. The result dictionary is a record;
  \<^verbatim>\<open>severity_counts\<close> is a Python dictionary, here an association list read with
  \<^const>\<open>map_of\<close> and written with \<^const>\<open>AList.update\<close> (an existing key is
  overwritten in place, a new key is appended).
\<close>

record scan_results =
  total_components :: nat
  vulnerable_components :: "(component \<times> vulnerability list) list"
  vulnerabilities_found :: "vulnerability list"
  severity_counts :: "(string \<times> nat) list"

definition initial_results :: "component list \<Rightarrow> scan_results" where
  "initial_results components =
     \<lparr> total_components = length components,
       vulnerable_components = [],
       vulnerabilities_found = [],
       severity_counts =
         [(''CRITICAL'', 0), (''HIGH'', 0), (''MEDIUM'', 0), (''LOW'', 0), (''UNKNOWN'', 0)] \<rparr>"

text \<open>\<^verbatim>\<open>vuln.severity or 'UNKNOWN'\<close>\<close>

definition severity_or_unknown :: "vulnerability \<Rightarrow> string" where
  "severity_or_unknown vuln =
     (case severity vuln of
        None \<Rightarrow> ''UNKNOWN''
      | Some s \<Rightarrow> if s = [] then ''UNKNOWN'' else s)"

text \<open>\<^verbatim>\<open>d.get(key, 0)\<close>\<close>

definition get_count :: "(string \<times> nat) list \<Rightarrow> string \<Rightarrow> nat" where
  "get_count d key = (case map_of d key of None \<Rightarrow> 0 | Some n \<Rightarrow> n)"

text \<open>The body of the inner loop, for one matched vulnerability.\<close>

definition record_vulnerability :: "scan_results \<Rightarrow> vulnerability \<Rightarrow> scan_results" where
  "record_vulnerability results vuln =
     (let sev = severity_or_unknown vuln in
      results \<lparr> vulnerabilities_found := vulnerabilities_found results @ [vuln],
                severity_counts :=
                  AList.update sev (get_count (severity_counts results) sev + 1)
                    (severity_counts results) \<rparr>)"

text \<open>The body of the outer loop, for one component.\<close>

definition scan_component ::
  "(string \<Rightarrow> ('v::linorder) option) \<Rightarrow> (string \<Rightarrow> cpe_match_entry list option) \<Rightarrow>
   vulnerability list \<Rightarrow> scan_results \<Rightarrow> component \<Rightarrow> scan_results" where
  "scan_component parse loads store results component =
     (let vulnerabilities = find_vulnerabilities_for_component parse loads store component in
      if vulnerabilities \<noteq> [] then
        foldl record_vulnerability
          (results \<lparr> vulnerable_components :=
                       vulnerable_components results @ [(component, vulnerabilities)] \<rparr>)
          vulnerabilities
      else results)"

definition scan_components ::
  "(string \<Rightarrow> ('v::linorder) option) \<Rightarrow> (string \<Rightarrow> cpe_match_entry list option) \<Rightarrow>
   vulnerability list \<Rightarrow> component list \<Rightarrow> scan_results" where
  "scan_components parse loads store components =
     foldl (scan_component parse loads store) (initial_results components) components"


section \<open>Decoded JSON and Python's operations on it\<close>

text \<open>
  A decoded JSON document, as \<^verbatim>\<open>json.loads\<close> returns it: \<^verbatim>\<open>None\<close>, a
  boolean, a number (kept as its literal, no modelled code computes with it), a string,
  a list or a dictionary. A dictionary is an association list read with
  \<^const>\<open>map_of\<close>; the decoder returns dictionaries with distinct keys.
\<close>

datatype json =
    JNull
  | JBool bool
  | JNum string
  | JStr string
  | JArr "json list"
  | JObj "(string \<times> json) list"

text \<open>
  The exceptions the modelled code raises or catches, and the messages it builds.
  \<^verbatim>\<open>SBOMParserException\<close> and the plain \<^verbatim>\<open>Exception\<close> of the worker carry
  a message, which may quote the exception it reports. \<^verbatim>\<open>DBAPIError\<close> stands for
  any error of the database on a write, \<^verbatim>\<open>PendingRollbackError\<close> for the use of
  a session whose transaction a failed flush has ended.
\<close>

datatype exn =
    AttributeError
  | TypeError
  | KeyError
  | ValueError
  | UnicodeDecodeError
  | JSONDecodeError
  | XMLParseError
  | OSError
  | DBAPIError
  | PendingRollbackError
  | SBOMParserException message
  | Exception message
and message =
    UnsupportedFileFormat string
  | UnknownSBOMFormatInJSON
  | UnknownSBOMFormatInXML
  | InvalidJSON
  | InvalidXML
  | FailedToParseSBOM exn
  | TrivyScanFailed string
  | TrivyScanTimedOut
  | TrivyScanError exn
  | InvalidSBOMIDFormat
  | SBOMNotFound
  | Str exn

text \<open>Sequencing of a computation that may raise.\<close>

definition and_then :: "exn + 'a \<Rightarrow> ('a \<Rightarrow> exn + 'b) \<Rightarrow> exn + 'b" where
  "and_then r f = (case r of Inl e \<Rightarrow> Inl e | Inr x \<Rightarrow> f x)"

text \<open>\<^verbatim>\<open>f(x) for x in xs\<close>, stopping at the first exception.\<close>

fun map_raising :: "('a \<Rightarrow> exn + 'b) \<Rightarrow> 'a list \<Rightarrow> exn + 'b list" where
  "map_raising f [] = Inr []"
| "map_raising f (x # xs) =
     and_then (f x) (\<lambda>y. and_then (map_raising f xs) (\<lambda>ys. Inr (y # ys)))"

text \<open>\<^verbatim>\<open>value.get(key, default)\<close>: only a dictionary has the method.\<close>

fun py_get :: "json \<Rightarrow> string \<Rightarrow> json \<Rightarrow> exn + json" where
  "py_get (JObj kvs) key dflt = Inr (case map_of kvs key of None \<Rightarrow> dflt | Some v \<Rightarrow> v)"
| "py_get _ key dflt = Inl AttributeError"

text \<open>
  \<^verbatim>\<open>key in value\<close> for a string key: membership in a dictionary's keys or in a
  list, a substring test on a string, a \<^verbatim>\<open>TypeError\<close> on anything else.
\<close>

fun py_in :: "string \<Rightarrow> json \<Rightarrow> exn + bool" where
  "py_in key (JObj kvs) = Inr (key \<in> fst ` set kvs)"
| "py_in key (JArr xs) = Inr (JStr key \<in> set xs)"
| "py_in key (JStr s) = Inr (substring_of key s)"
| "py_in key _ = Inl TypeError"

text \<open>\<^verbatim>\<open>value[key]\<close> for a string key.\<close>

fun py_getitem :: "json \<Rightarrow> string \<Rightarrow> exn + json" where
  "py_getitem (JObj kvs) key = (case map_of kvs key of None \<Rightarrow> Inl KeyError | Some v \<Rightarrow> Inr v)"
| "py_getitem _ key = Inl TypeError"

text \<open>
  \<^verbatim>\<open>for x in value\<close>: the elements of a list, the keys of a dictionary, the
  characters of a string.
\<close>

fun py_iter :: "json \<Rightarrow> exn + json list" where
  "py_iter (JArr xs) = Inr xs"
| "py_iter (JObj kvs) = Inr (map (\<lambda>kv. JStr (fst kv)) kvs)"
| "py_iter (JStr s) = Inr (map (\<lambda>c. JStr [c]) s)"
| "py_iter _ = Inl TypeError"

text \<open>\<^verbatim>\<open>len(value)\<close>\<close>

fun py_len :: "json \<Rightarrow> exn + nat" where
  "py_len (JArr xs) = Inr (length xs)"
| "py_len (JObj kvs) = Inr (length kvs)"
| "py_len (JStr s) = Inr (length s)"
| "py_len _ = Inl TypeError"

text \<open>
  Truthiness of a decoded value. A number is false when it is zero, read off its
  literal: no non-zero digit before the exponent.
\<close>

fun py_bool :: "json \<Rightarrow> bool" where
  "py_bool JNull = False"
| "py_bool (JBool b) = b"
| "py_bool (JNum lit) =
     (\<not> list_all (\<lambda>c. c \<in> set ''0.-+'') (takeWhile (\<lambda>c. c \<notin> set ''eE'') lit))"
| "py_bool (JStr s) = (s \<noteq> [])"
| "py_bool (JArr xs) = (xs \<noteq> [])"
| "py_bool (JObj kvs) = (kvs \<noteq> [])"


section \<open>The SBOM parser\<close>

text \<open>
  An element as \<^verbatim>\<open>xml.etree.ElementTree\<close> returns it: tag (with its namespace in
  braces), attributes, text and children.
\<close>

datatype xml_element =
  Element (tag: string) (attrib: "(string \<times> string) list") (elem_text: "string option")
          (children: "xml_element list")

text \<open>
  \<^verbatim>\<open>Component\<close> as the parsers build it: each field holds whatever the document
  has there.
\<close>

record parsed_component =
  pc_name :: json
  pc_version :: json
  pc_purl :: json
  pc_type :: json

record parsed_sbom =
  sbom_format :: string
  sbom_version :: json
  sbom_components :: "parsed_component list"
  sbom_metadata :: "(string \<times> json) list"
  serial_number :: "json option"
  raw_data :: json

text \<open>\<^verbatim>\<open>CycloneDXParser.parse_json\<close>\<close>

definition cyclonedx_component :: "json \<Rightarrow> exn + parsed_component" where
  "cyclonedx_component c =
     and_then (py_get c ''name'' (JStr ''unknown'')) (\<lambda>n.
     and_then (py_get c ''version'' (JStr ''unknown'')) (\<lambda>v.
     and_then (py_get c ''purl'' JNull) (\<lambda>p.
     and_then (py_get c ''type'' (JStr ''library'')) (\<lambda>t.
       Inr \<lparr> pc_name = n, pc_version = v, pc_purl = p, pc_type = t \<rparr>))))"

definition CycloneDXParser_parse_json :: "json \<Rightarrow> exn + parsed_sbom" where
  "CycloneDXParser_parse_json data =
     and_then (py_get data ''components'' (JArr [])) (\<lambda>cs.
     and_then (py_iter cs) (\<lambda>items.
     and_then (map_raising cyclonedx_component items) (\<lambda>comps.
     and_then (py_get data ''metadata'' (JObj [])) (\<lambda>md.
     and_then (py_get data ''specVersion'' (JStr ''unknown'')) (\<lambda>ver.
     and_then (py_get md ''timestamp'' JNull) (\<lambda>ts.
     and_then (py_get md ''tools'' (JArr [])) (\<lambda>tools.
     and_then (py_get md ''component'' (JObj [])) (\<lambda>mc.
     and_then (py_get data ''serialNumber'' JNull) (\<lambda>sn.
       Inr \<lparr> sbom_format = ''cyclonedx'', sbom_version = ver, sbom_components = comps,
             sbom_metadata = [(''timestamp'', ts), (''tools'', tools), (''component'', mc)],
             serial_number = Some sn, raw_data = data \<rparr>)))))))))"

text \<open>\<^verbatim>\<open>SPDXParser.parse_json\<close>\<close>

definition spdx_component :: "json \<Rightarrow> exn + parsed_component" where
  "spdx_component pkg =
     and_then (py_get pkg ''name'' (JStr ''unknown'')) (\<lambda>n.
     and_then (py_get pkg ''versionInfo'' (JStr ''unknown'')) (\<lambda>v.
       Inr \<lparr> pc_name = n, pc_version = v, pc_purl = JNull, pc_type = JStr ''library'' \<rparr>))"

definition SPDXParser_parse_json :: "json \<Rightarrow> exn + parsed_sbom" where
  "SPDXParser_parse_json data =
     and_then (py_get data ''packages'' (JArr [])) (\<lambda>ps.
     and_then (py_iter ps) (\<lambda>items.
     and_then (map_raising spdx_component items) (\<lambda>comps.
     and_then (py_get data ''spdxVersion'' (JStr ''unknown'')) (\<lambda>ver.
     and_then (py_get data ''creationInfo'' (JObj [])) (\<lambda>ci.
     and_then (py_get ci ''created'' JNull) (\<lambda>created.
     and_then (py_get data ''creationInfo'' (JObj [])) (\<lambda>ci2.
     and_then (py_get ci2 ''creators'' (JArr [])) (\<lambda>creators.
     and_then (py_get data ''name'' JNull) (\<lambda>doc.
       Inr \<lparr> sbom_format = ''spdx'', sbom_version = ver, sbom_components = comps,
             sbom_metadata = [(''created'', created), (''creators'', creators),
                         (''document_name'', doc)],
             serial_number = None, raw_data = data \<rparr>)))))))))"

text \<open>
  The element queries of the XML extractors. \<^verbatim>\<open>findall('.//t')\<close> yields the
  elements below the root whose tag is \<open>t\<close>, in document order; \<^verbatim>\<open>find(t)\<close>
  the first child with that tag; with the namespace map of
  \<^verbatim>\<open>CycloneDXParser.parse_xml\<close> an unprefixed name stands for the name in the
  CycloneDX 1.4 namespace.
\<close>

fun descendants :: "xml_element \<Rightarrow> xml_element list" where
  "descendants (Element t a x cs) = concat (map (\<lambda>c. c # descendants c) cs)"

definition find_child :: "string \<Rightarrow> xml_element \<Rightarrow> xml_element option" where
  "find_child t e = List.find (\<lambda>c. tag c = t) (children e)"

definition cdx_ns :: "string \<Rightarrow> string" where
  "cdx_ns t = ''{http://cyclonedx.org/schema/bom/1.4}'' @ t"

definition text_or_unknown :: "xml_element option \<Rightarrow> json" where
  "text_or_unknown e =
     (case e of
        None \<Rightarrow> JStr ''unknown''
      | Some el \<Rightarrow> (case elem_text el of None \<Rightarrow> JNull | Some s \<Rightarrow> JStr s))"

definition attrib_get :: "xml_element \<Rightarrow> string \<Rightarrow> json \<Rightarrow> json" where
  "attrib_get e key dflt = (case map_of (attrib e) key of None \<Rightarrow> dflt | Some s \<Rightarrow> JStr s)"

text \<open>\<^verbatim>\<open>CycloneDXParser.parse_xml\<close>\<close>

definition CycloneDXParser_parse_xml :: "xml_element \<Rightarrow> parsed_sbom" where
  "CycloneDXParser_parse_xml root =
     (let found = concat (map (\<lambda>cs. filter (\<lambda>c. tag c = cdx_ns ''component'') (children cs))
                    (filter (\<lambda>e. tag e = cdx_ns ''components'') (descendants root)));
          comps = map (\<lambda>c.
                    \<lparr> pc_name = text_or_unknown (find_child (cdx_ns ''name'') c),
                      pc_version = text_or_unknown (find_child (cdx_ns ''version'') c),
                      pc_purl = (case find_child (cdx_ns ''purl'') c of
                                   None \<Rightarrow> JNull
                                 | Some el \<Rightarrow> (case elem_text el of None \<Rightarrow> JNull | Some s \<Rightarrow> JStr s)),
                      pc_type = attrib_get c ''type'' (JStr ''library'') \<rparr>) found
      in \<lparr> sbom_format = ''cyclonedx'',
            sbom_version = attrib_get root ''version'' (JStr ''unknown''),
            sbom_components = comps, sbom_metadata = [],
            serial_number = Some (attrib_get root ''serialNumber'' JNull),
            raw_data = JObj [] \<rparr>)"

text \<open>\<^verbatim>\<open>SPDXParser.parse_xml\<close>\<close>

definition SPDXParser_parse_xml :: "xml_element \<Rightarrow> parsed_sbom" where
  "SPDXParser_parse_xml root =
     (let comps = map (\<lambda>pkg.
                    \<lparr> pc_name = text_or_unknown (find_child ''name'' pkg),
                      pc_version = text_or_unknown (find_child ''versionInfo'' pkg),
                      pc_purl = JNull,
                      pc_type = JStr ''library'' \<rparr>)
                    (filter (\<lambda>e. tag e = ''Package'') (descendants root))
      in \<lparr> sbom_format = ''spdx'',
            sbom_version = attrib_get root ''spdxVersion'' (JStr ''unknown''),
            sbom_components = comps, sbom_metadata = [],
            serial_number = None, raw_data = JObj [] \<rparr>)"

text \<open>
  \<^verbatim>\<open>SBOMParser._parse_json\<close>. \<open>loads\<close> is
  \<^verbatim>\<open>json.loads(content.decode('utf-8'))\<close>, a library call: it returns the decoded
  document or raises \<^verbatim>\<open>JSONDecodeError\<close> or \<^verbatim>\<open>UnicodeDecodeError\<close>. Only
  \<^verbatim>\<open>JSONDecodeError\<close> is caught here.
\<close>

definition SBOMParser_parse_json_body :: "json \<Rightarrow> exn + parsed_sbom" where
  "SBOMParser_parse_json_body data =
     and_then (py_in ''bomFormat'' data) (\<lambda>has_format.
     and_then (if has_format
               then and_then (py_getitem data ''bomFormat'') (\<lambda>v. Inr (v = JStr ''CycloneDX''))
               else Inr False) (\<lambda>is_cyclonedx.
       if is_cyclonedx then CycloneDXParser_parse_json data
       else and_then (py_in ''spdxVersion'' data) (\<lambda>has_spdx.
              if has_spdx then SPDXParser_parse_json data
              else Inl (SBOMParserException UnknownSBOMFormatInJSON))))"

definition SBOMParser_parse_json :: "(string \<Rightarrow> exn + json) \<Rightarrow> string \<Rightarrow> exn + parsed_sbom" where
  "SBOMParser_parse_json loads content =
     (case and_then (loads content) SBOMParser_parse_json_body of
        Inl JSONDecodeError \<Rightarrow> Inl (SBOMParserException InvalidJSON)
      | r \<Rightarrow> r)"

text \<open>
  \<^verbatim>\<open>SBOMParser._parse_xml\<close>. \<open>fromstring\<close> is
  \<^verbatim>\<open>ET.fromstring(content.decode('utf-8'))\<close>.
\<close>

definition SBOMParser_parse_xml :: "(string \<Rightarrow> exn + xml_element) \<Rightarrow> string \<Rightarrow> exn + parsed_sbom" where
  "SBOMParser_parse_xml fromstring content =
     (case and_then (fromstring content) (\<lambda>root.
             if substring_of ''cyclonedx'' (lower (tag root))
             then Inr (CycloneDXParser_parse_xml root)
             else if substring_of ''spdx'' (lower (tag root))
             then Inr (SPDXParser_parse_xml root)
             else Inl (SBOMParserException UnknownSBOMFormatInXML)) of
        Inl XMLParseError \<Rightarrow> Inl (SBOMParserException InvalidXML)
      | r \<Rightarrow> r)"

text \<open>
  \<^verbatim>\<open>SBOMParser.parse\<close>: the file name chooses the decoder, and every exception
  leaves as an \<^verbatim>\<open>SBOMParserException\<close> quoting it
  (\<^verbatim>\<open>except Exception as e: raise SBOMParserException(f"Failed to parse SBOM: {str(e)}")\<close>).
\<close>

definition failed_to_parse :: "exn + 'a \<Rightarrow> exn + 'a" where
  "failed_to_parse r =
     (case r of
        Inl e \<Rightarrow> Inl (SBOMParserException (FailedToParseSBOM e))
      | Inr x \<Rightarrow> Inr x)"

definition SBOMParser_parse ::
  "(string \<Rightarrow> exn + json) \<Rightarrow> (string \<Rightarrow> exn + xml_element) \<Rightarrow> string \<Rightarrow> string \<Rightarrow>
   exn + parsed_sbom" where
  "SBOMParser_parse loads fromstring content filename =
     failed_to_parse
       (if suffix ''.json'' filename then SBOMParser_parse_json loads content
        else if suffix ''.xml'' filename then SBOMParser_parse_xml fromstring content
        else Inl (SBOMParserException (UnsupportedFileFormat filename)))"

text \<open>The \<^verbatim>\<open>"format"\<close> entry of the dictionary a successful parse returns.\<close>

definition format_of :: "exn + parsed_sbom \<Rightarrow> string option" where
  "format_of r = (case r of Inl e \<Rightarrow> None | Inr x \<Rightarrow> Some (sbom_format x))"


section \<open>The external scanner adapter\<close>

text \<open>
  One finding of \<^verbatim>\<open>TrivyService._parse_trivy_result\<close>, the dictionary
  \<^verbatim>\<open>vulnerability_data\<close>; its values are whatever the report has.
\<close>

record vulnerability_data =
  vd_cve_id :: json
  vd_severity :: json
  vd_component_name :: json
  vd_component_version :: json
  vd_fixed_version :: json
  vd_title :: json
  vd_description :: json
  vd_cvss_score :: json
  vd_cvss_vector :: json
  vd_references :: json
  vd_target :: json
  vd_published_date :: json
  vd_last_modified_date :: json

text \<open>
  The dictionary \<^verbatim>\<open>scan_sbom\<close> returns. The keys
  \<^verbatim>\<open>vulnerable_components_count\<close> and \<^verbatim>\<open>total_vulnerabilities\<close> are absent
  from a failed result and \<^verbatim>\<open>error\<close> from a successful one.
\<close>

record trivy_result =
  t_status :: string
  t_error :: "message option"
  t_vulnerabilities :: "vulnerability_data list"
  t_severity_counts :: "(string \<times> nat) list"
  vulnerable_components_count :: "nat option"
  total_vulnerabilities :: "nat option"

definition zero_severity_counts :: "(string \<times> nat) list" where
  "zero_severity_counts =
     [(''CRITICAL'', 0), (''HIGH'', 0), (''MEDIUM'', 0), (''LOW'', 0), (''UNKNOWN'', 0)]"

text \<open>
  The tally of one finding:
  \<^verbatim>\<open>if severity in severity_counts: severity_counts[severity] += 1\<close>,
  \<^verbatim>\<open>else: severity_counts["UNKNOWN"] += 1\<close>. The membership test hashes the
  severity, which a list or a dictionary does not allow.
\<close>

fun trivy_tally :: "(string \<times> nat) list \<Rightarrow> json \<Rightarrow> exn + (string \<times> nat) list" where
  "trivy_tally counts (JStr sev) =
     Inr (if sev \<in> fst ` set counts
          then AList.update sev (get_count counts sev + 1) counts
          else AList.update ''UNKNOWN'' (get_count counts ''UNKNOWN'' + 1) counts)"
| "trivy_tally counts (JArr xs) = Inl TypeError"
| "trivy_tally counts (JObj kvs) = Inl TypeError"
| "trivy_tally counts _ =
     Inr (AList.update ''UNKNOWN'' (get_count counts ''UNKNOWN'' + 1) counts)"

text \<open>A loop whose body may raise: the exception ends it.\<close>

fun fold_raising :: "('s \<Rightarrow> 'a \<Rightarrow> exn + 's) \<Rightarrow> 'a list \<Rightarrow> 's \<Rightarrow> exn + 's" where
  "fold_raising f [] s = Inr s"
| "fold_raising f (x # xs) s = and_then (f s x) (fold_raising f xs)"

text \<open>
  The state of the two loops: the findings so far, the tallies and the set
  \<^verbatim>\<open>vulnerable_components\<close> of strings: the package name, an at sign and the
  installed version, each formatted by an f-string. \<open>py_str\<close> is Python's
  \<^verbatim>\<open>str\<close> on a decoded value, the identity on strings.
\<close>

type_synonym trivy_state = "vulnerability_data list \<times> (string \<times> nat) list \<times> string list"

definition finding_step ::
  "(json \<Rightarrow> string) \<Rightarrow> json \<Rightarrow> trivy_state \<Rightarrow> json \<Rightarrow> exn + trivy_state" where
  "finding_step py_str target st vuln =
     (case st of (vulnerabilities, counts, vulnerable) \<Rightarrow>
     and_then (py_get vuln ''VulnerabilityID'' (JStr ''UNKNOWN'')) (\<lambda>cve_id.
     and_then (py_get vuln ''Severity'' (JStr ''UNKNOWN'')) (\<lambda>severity.
     and_then (py_get vuln ''PkgName'' (JStr ''unknown'')) (\<lambda>pkg_name.
     and_then (py_get vuln ''InstalledVersion'' (JStr ''unknown'')) (\<lambda>installed_version.
     and_then (py_get vuln ''FixedVersion'' (JStr '''')) (\<lambda>fixed_version.
     and_then (py_get vuln ''Title'' (JStr '''')) (\<lambda>title.
     and_then (py_get vuln ''Description'' (JStr '''')) (\<lambda>description.
     and_then (py_get vuln ''CVSS'' (JObj [])) (\<lambda>cvss.
     and_then (py_get cvss ''nvd'' (JObj [])) (\<lambda>nvd.
     and_then (py_get nvd ''V3Score'' (JNum ''0.0'')) (\<lambda>cvss_v3.
     and_then (py_get vuln ''CVSS'' (JObj [])) (\<lambda>cvss2.
     and_then (py_get cvss2 ''nvd'' (JObj [])) (\<lambda>nvd2.
     and_then (py_get nvd2 ''V3Vector'' (JStr '''')) (\<lambda>cvss_vector.
     and_then (py_get vuln ''References'' (JArr [])) (\<lambda>references.
     and_then (py_get vuln ''PublishedDate'' (JStr '''')) (\<lambda>published.
     and_then (py_get vuln ''LastModifiedDate'' (JStr '''')) (\<lambda>modified.
     and_then (trivy_tally counts severity) (\<lambda>counts'.
       Inr (vulnerabilities @
              [\<lparr> vd_cve_id = cve_id, vd_severity = severity,
                 vd_component_name = pkg_name, vd_component_version = installed_version,
                 vd_fixed_version = fixed_version, vd_title = title,
                 vd_description = description, vd_cvss_score = cvss_v3,
                 vd_cvss_vector = cvss_vector, vd_references = references,
                 vd_target = target, vd_published_date = published,
                 vd_last_modified_date = modified \<rparr>],
            counts',
            List.insert (py_str pkg_name @ ''@'' @ py_str installed_version) vulnerable)
     ))))))))))))))))))"

definition result_step ::
  "(json \<Rightarrow> string) \<Rightarrow> trivy_state \<Rightarrow> json \<Rightarrow> exn + trivy_state" where
  "result_step py_str st result =
     and_then (py_get result ''Target'' (JStr ''unknown'')) (\<lambda>target.
     and_then (py_get result ''Vulnerabilities'' (JArr [])) (\<lambda>vulns.
     and_then (py_iter vulns) (\<lambda>items.
       fold_raising (finding_step py_str target) items st)))"

text \<open>\<^verbatim>\<open>TrivyService._parse_trivy_result\<close>\<close>

definition parse_trivy_result :: "(json \<Rightarrow> string) \<Rightarrow> json \<Rightarrow> exn + trivy_result" where
  "parse_trivy_result py_str trivy_report =
     and_then (py_get trivy_report ''Results'' (JArr [])) (\<lambda>results.
     and_then (py_iter results) (\<lambda>items.
     and_then (fold_raising (result_step py_str) items ([], zero_severity_counts, []))
       (\<lambda>st. case st of (vulnerabilities, counts, vulnerable) \<Rightarrow>
          Inr \<lparr> t_status = ''success'', t_error = None,
                t_vulnerabilities = vulnerabilities,
                t_severity_counts = counts,
                vulnerable_components_count = Some (length vulnerable),
                total_vulnerabilities = Some (length vulnerabilities) \<rparr>)))"

text \<open>
  The outcome of the \<^verbatim>\<open>try\<close> block of \<^verbatim>\<open>scan_sbom\<close> up to the return of
  \<^verbatim>\<open>subprocess.run\<close>: the process completed with an exit code and its two output
  streams, or the call timed out, or writing the temporary file or starting the process
  raised something else.
\<close>

record completed_process =
  returncode :: int
  stdout :: string
  stderr :: string

datatype run_result = Completed completed_process | TimeoutExpired | RunRaised exn

definition failed_result :: "message \<Rightarrow> trivy_result" where
  "failed_result msg =
     \<lparr> t_status = ''failed'', t_error = Some msg, t_vulnerabilities = [],
       t_severity_counts = zero_severity_counts,
       vulnerable_components_count = None, total_vulnerabilities = None \<rparr>"

text \<open>
  \<^verbatim>\<open>TrivyService.scan_sbom\<close>; \<open>loads\<close> is \<^verbatim>\<open>json.loads\<close> on the standard
  output of the process.
\<close>

definition scan_sbom ::
  "(string \<Rightarrow> exn + json) \<Rightarrow> (json \<Rightarrow> string) \<Rightarrow> run_result \<Rightarrow> trivy_result" where
  "scan_sbom loads py_str run =
     (case run of
        TimeoutExpired \<Rightarrow> failed_result TrivyScanTimedOut
      | RunRaised e \<Rightarrow> failed_result (TrivyScanError e)
      | Completed result \<Rightarrow>
          if returncode result = 0 \<or> returncode result = 1 then
            (case and_then (loads (stdout result)) (parse_trivy_result py_str) of
               Inl e \<Rightarrow> failed_result (TrivyScanError e)
             | Inr parsed_result \<Rightarrow> parsed_result)
          else failed_result (TrivyScanFailed (stderr result)))"


section \<open>The database session\<close>

text \<open>
  The rows of the three tables the scan writes. Columns that no modelled code reads
  back (\<^verbatim>\<open>scan_date\<close>, \<^verbatim>\<open>created_at\<close>) are left out. A column filled from a
  scanner report holds the decoded value it was given. The primary key of a row is drawn
  from the session's counter when the row is built; the code reads it after the flush
  that assigns it.
\<close>

record scan_result_row =
  sr_id :: nat
  sr_sbom_id :: string
  sr_status :: string
  sr_total_components :: nat
  sr_vulnerable_count :: nat
  critical_count :: nat
  high_count :: nat
  medium_count :: nat
  low_count :: nat
  scan_duration_seconds :: "nat option"

record scan_vulnerability_row =
  scan_result_id :: nat
  vulnerability_id :: nat
  component_name :: json
  component_version :: json
  matched_cpe :: json

record vulnerability_row =
  v_id :: nat
  v_cve_id :: json
  v_severity :: json
  v_description :: json
  v_cvss_score :: json
  v_cvss_vector :: json
  v_published_date :: "string option"
  v_modified_date :: "string option"
  v_references :: json

datatype row =
    ScanResult scan_result_row
  | ScanVulnerability scan_vulnerability_row
  | Vulnerability vulnerability_row

text \<open>
  A SQLAlchemy session (\<^verbatim>\<open>autoflush=False\<close>) over the database, modelled from the
  library's documented behaviour: \<open>committed\<close> are the rows every reader sees,
  \<open>flushed\<close> the rows written in the open transaction, \<open>pending\<close> the objects added
  and not yet flushed. A flush writes the pending rows one by one; the database accepts
  or rejects each (\<open>accepts\<close>, given the rows the transaction sees). A rejected row
  raises, the database transaction is rolled back and the session is \<open>deactivated\<close>:
  until \<^verbatim>\<open>rollback()\<close> every flush and commit raises. An exception raised by the
  program itself changes nothing in the session.
\<close>

record session =
  committed :: "row list"
  flushed :: "row list"
  pending :: "row list"
  deactivated :: bool
  next_id :: nat

definition db_add :: "row \<Rightarrow> session \<Rightarrow> session" where
  "db_add r s = s \<lparr> pending := pending s @ [r] \<rparr>"

fun all_accepted :: "(row list \<Rightarrow> row \<Rightarrow> bool) \<Rightarrow> row list \<Rightarrow> row list \<Rightarrow> bool" where
  "all_accepted accepts visible [] = True"
| "all_accepted accepts visible (r # rs) =
     (accepts visible r \<and> all_accepted accepts (visible @ [r]) rs)"

definition db_flush :: "(row list \<Rightarrow> row \<Rightarrow> bool) \<Rightarrow> session \<Rightarrow> (exn + unit) \<times> session" where
  "db_flush accepts s =
     (if deactivated s then (Inl PendingRollbackError, s)
      else if all_accepted accepts (committed s @ flushed s) (pending s)
      then (Inr (), s \<lparr> flushed := flushed s @ pending s, pending := [] \<rparr>)
      else (Inl DBAPIError, s \<lparr> flushed := [], deactivated := True \<rparr>))"

definition db_commit :: "(row list \<Rightarrow> row \<Rightarrow> bool) \<Rightarrow> session \<Rightarrow> (exn + unit) \<times> session" where
  "db_commit accepts s =
     (case db_flush accepts s of
        (Inl e, s') \<Rightarrow> (Inl e, s')
      | (Inr u, s') \<Rightarrow> (Inr (), s' \<lparr> committed := committed s' @ flushed s', flushed := [] \<rparr>))"

definition db_rollback :: "session \<Rightarrow> session" where
  "db_rollback s = s \<lparr> flushed := [], pending := [], deactivated := False \<rparr>"

text \<open>\<^verbatim>\<open>db.close()\<close> releases the connection: an open transaction is rolled back.\<close>

definition db_close :: "session \<Rightarrow> session" where
  "db_close s = db_rollback s"

text \<open>
  \<^verbatim>\<open>SessionLocal()\<close>: a new session over the rows of the database, with the next
  key of its sequences.
\<close>

definition fresh_session :: "row list \<Rightarrow> nat \<Rightarrow> session" where
  "fresh_session rows n =
     \<lparr> committed = rows, flushed = [], pending = [], deactivated = False, next_id = n \<rparr>"

definition fresh_id :: "session \<Rightarrow> nat \<times> session" where
  "fresh_id s = (next_id s, s \<lparr> next_id := Suc (next_id s) \<rparr>)"


section \<open>Saving a scan result of the matcher\<close>

text \<open>
  \<^verbatim>\<open>VulnerabilityScanner._extract_matched_cpe\<close>: the first non-empty
  \<^verbatim>\<open>criteria\<close> of the vulnerability.
\<close>

definition first_criteria :: "cpe_match_entry list \<Rightarrow> string option" where
  "first_criteria entries =
     List.find (\<lambda>c. c \<noteq> [])
       (map (\<lambda>e. case criteria e of None \<Rightarrow> [] | Some c \<Rightarrow> c) entries)"

definition extract_matched_cpe ::
  "(string \<Rightarrow> cpe_match_entry list option) \<Rightarrow> vulnerability \<Rightarrow> string option" where
  "extract_matched_cpe loads vuln =
     (case cpe_match vuln of
        CpeNull \<Rightarrow> None
      | CpeList entries \<Rightarrow> first_criteria entries
      | CpeText s \<Rightarrow>
          if s = [] then None
          else (case loads s of None \<Rightarrow> None | Some entries \<Rightarrow> first_criteria entries))"

text \<open>The \<^verbatim>\<open>ScanResult\<close> object that \<^verbatim>\<open>save_scan_result\<close> builds.\<close>

definition completed_scan_result :: "nat \<Rightarrow> string \<Rightarrow> scan_results \<Rightarrow> nat \<Rightarrow> scan_result_row" where
  "completed_scan_result new_id sbom_id results scan_duration =
     \<lparr> sr_id = new_id,
       sr_sbom_id = sbom_id,
       sr_status = ''completed'',
       sr_total_components = total_components results,
       sr_vulnerable_count = length (vulnerable_components results),
       critical_count = get_count (severity_counts results) ''CRITICAL'',
       high_count = get_count (severity_counts results) ''HIGH'',
       medium_count = get_count (severity_counts results) ''MEDIUM'',
       low_count = get_count (severity_counts results) ''LOW'',
       scan_duration_seconds = Some scan_duration \<rparr>"

text \<open>The \<^verbatim>\<open>ScanVulnerability\<close> objects of the two nested loops, in their order.\<close>

definition scan_vulnerability_rows ::
  "(string \<Rightarrow> cpe_match_entry list option) \<Rightarrow> nat \<Rightarrow> scan_results \<Rightarrow> row list" where
  "scan_vulnerability_rows loads result_id results =
     concat (map (\<lambda>(component, vulnerabilities).
        map (\<lambda>vuln. ScanVulnerability
               \<lparr> scan_result_id = result_id,
                 vulnerability_id = vuln_id vuln,
                 component_name = JStr (comp_name component),
                 component_version = JStr (comp_version component),
                 matched_cpe = (case extract_matched_cpe loads vuln of
                                  None \<Rightarrow> JNull | Some c \<Rightarrow> JStr c) \<rparr>)
            vulnerabilities)
       (vulnerable_components results))"

text \<open>
  \<^verbatim>\<open>VulnerabilityScanner.save_scan_result\<close>: the result object is added and
  flushed, the association objects are added, everything is committed; any exception
  rolls the session back and is raised again.
\<close>

definition save_scan_result ::
  "(row list \<Rightarrow> row \<Rightarrow> bool) \<Rightarrow> (string \<Rightarrow> cpe_match_entry list option) \<Rightarrow>
   string \<Rightarrow> scan_results \<Rightarrow> nat \<Rightarrow> session \<Rightarrow> (exn + scan_result_row) \<times> session" where
  "save_scan_result accepts loads sbom_id results scan_duration s =
     (case fresh_id s of (new_id, s0) \<Rightarrow>
      let scan_result = completed_scan_result new_id sbom_id results scan_duration in
      case db_flush accepts (db_add (ScanResult scan_result) s0) of
        (Inl e, s1) \<Rightarrow> (Inl e, db_rollback s1)
      | (Inr u, s1) \<Rightarrow>
          (let s2 = foldl (\<lambda>t r. db_add r t) s1 (scan_vulnerability_rows loads new_id results)
           in case db_commit accepts s2 of
                (Inl e, s3) \<Rightarrow> (Inl e, db_rollback s3)
              | (Inr u, s3) \<Rightarrow> (Inr scan_result, s3)))"


section \<open>The scan task of the worker\<close>

text \<open>The columns of an \<^verbatim>\<open>SBOM\<close> row that the task reads.\<close>

record sbom =
  sbom_filename :: string
  sbom_fmt :: string
  content_json :: json

text \<open>
  What the task receives from outside the repository: whether
  \<^verbatim>\<open>UUID(sbom_id)\<close> accepts the identifier, the SBOM row with that identifier,
  the outcome of running the scanner, \<^verbatim>\<open>json.loads\<close>, \<^verbatim>\<open>str\<close> on a decoded
  value, \<^verbatim>\<open>datetime.fromisoformat\<close>, the database's verdict on a row, and the
  seconds the scan took.
\<close>

record environment =
  is_uuid :: "string \<Rightarrow> bool"
  find_sbom :: "string \<Rightarrow> sbom option"
  trivy_run :: run_result
  env_loads :: "string \<Rightarrow> exn + json"
  env_str :: "json \<Rightarrow> string"
  env_fromisoformat :: "string \<Rightarrow> exn + string"
  db_accepts :: "row list \<Rightarrow> row \<Rightarrow> bool"
  elapsed_seconds :: nat

text \<open>The dictionary the task returns.\<close>

datatype task_result =
    TaskSuccess (task_scan_result_id: nat) (task_total_components: nat)
      (task_vulnerable_count: nat) (task_total_vulnerabilities: nat)
      (task_severity_counts: "(string \<times> nat) list") (task_scan_duration: nat)
  | TaskFailed message

fun task_status :: "task_result \<Rightarrow> string" where
  "task_status (TaskSuccess i n v t c d) = ''success''"
| "task_status (TaskFailed m) = ''failed''"

text \<open>\<^verbatim>\<open>s.replace('Z', '+00:00')\<close>\<close>

definition replace_Z :: "string \<Rightarrow> string" where
  "replace_Z s = concat (map (\<lambda>c. if c = CHR ''Z'' then ''+00:00'' else [c]) s)"

text \<open>
  \<^verbatim>\<open>datetime.fromisoformat(d.replace('Z', '+00:00')) if d else None\<close> for a date
  of a finding.
\<close>

definition parse_date :: "(string \<Rightarrow> exn + string) \<Rightarrow> json \<Rightarrow> exn + string option" where
  "parse_date fromiso d =
     (if py_bool d then
        (case d of
           JStr s \<Rightarrow> and_then (fromiso (replace_Z s)) (\<lambda>t. Inr (Some t))
         | _ \<Rightarrow> Inl AttributeError)
      else Inr None)"

text \<open>
  \<^verbatim>\<open>db.query(Vulnerability).filter(Vulnerability.cve_id == cve).first()\<close>: a row of
  the table that the open transaction sees.
\<close>

definition find_vulnerability :: "session \<Rightarrow> json \<Rightarrow> vulnerability_row option" where
  "find_vulnerability s cve =
     (case List.find (\<lambda>r. case r of Vulnerability v \<Rightarrow> v_cve_id v = cve | _ \<Rightarrow> False)
             (committed s @ flushed s) of
        Some (Vulnerability v) \<Rightarrow> Some v
      | _ \<Rightarrow> None)"

text \<open>
  One turn of the loop over \<^verbatim>\<open>scan_results['vulnerabilities']\<close>: the vulnerability
  is looked up by its CVE identifier and, when missing, built, added and flushed; then
  the association object is added.
\<close>

definition persist_finding ::
  "environment \<Rightarrow> nat \<Rightarrow> session \<Rightarrow> vulnerability_data \<Rightarrow> (exn + unit) \<times> session" where
  "persist_finding env result_id s vd =
     (let link = (\<lambda>vid t.
            (Inr (), db_add (ScanVulnerability
               \<lparr> scan_result_id = result_id,
                 vulnerability_id = vid,
                 component_name = vd_component_name vd,
                 component_version = vd_component_version vd,
                 matched_cpe = vd_target vd \<rparr>) t))
      in case find_vulnerability s (vd_cve_id vd) of
           Some v \<Rightarrow> link (v_id v) s
         | None \<Rightarrow>
             (case parse_date (env_fromisoformat env) (vd_published_date vd) of
                Inl e \<Rightarrow> (Inl e, s)
              | Inr published \<Rightarrow>
                  (case parse_date (env_fromisoformat env) (vd_last_modified_date vd) of
                     Inl e \<Rightarrow> (Inl e, s)
                   | Inr modified \<Rightarrow>
                       (case fresh_id s of (vid, s1) \<Rightarrow>
                        case db_flush (db_accepts env)
                               (db_add (Vulnerability
                                  \<lparr> v_id = vid,
                                    v_cve_id = vd_cve_id vd,
                                    v_severity = vd_severity vd,
                                    v_description = vd_description vd,
                                    v_cvss_score = vd_cvss_score vd,
                                    v_cvss_vector = vd_cvss_vector vd,
                                    v_published_date = published,
                                    v_modified_date = modified,
                                    v_references = JObj [(''urls'', vd_references vd)] \<rparr>) s1) of
                          (Inl e, s2) \<Rightarrow> (Inl e, s2)
                        | (Inr u, s2) \<Rightarrow> link vid s2))))"

fun persist_findings ::
  "environment \<Rightarrow> nat \<Rightarrow> session \<Rightarrow> vulnerability_data list \<Rightarrow> (exn + unit) \<times> session" where
  "persist_findings env result_id s [] = (Inr (), s)"
| "persist_findings env result_id s (vd # vds) =
     (case persist_finding env result_id s vd of
        (Inl e, s') \<Rightarrow> (Inl e, s')
      | (Inr u, s') \<Rightarrow> persist_findings env result_id s' vds)"

text \<open>The component count, by the format recorded with the SBOM.\<close>

definition count_components :: "sbom \<Rightarrow> exn + nat" where
  "count_components sb =
     (if lower (sbom_fmt sb) = ''cyclonedx'' then
        and_then (py_get (content_json sb) ''components'' (JArr [])) py_len
      else if lower (sbom_fmt sb) = ''spdx'' then
        and_then (py_get (content_json sb) ''packages'' (JArr [])) py_len
      else
        and_then (py_get (content_json sb) ''components'' (JArr [])) (\<lambda>comps.
        and_then (py_get (content_json sb) ''packages'' (JArr [])) (\<lambda>packages.
          if py_bool comps then py_len comps else py_len packages)))"

text \<open>
  The \<^verbatim>\<open>try\<close> block of the task from the scan on: it returns the task's result or
  raises, and leaves the session as it is at that moment. A scan whose status is not
  \<^verbatim>\<open>success\<close> raises an \<^verbatim>\<open>Exception\<close> with the scan's error message, or
  with \<^verbatim>\<open>"Trivy scan failed"\<close> (here without scanner output) when there is none.
\<close>

definition scan_and_persist ::
  "environment \<Rightarrow> string \<Rightarrow> sbom \<Rightarrow> session \<Rightarrow> (exn + task_result) \<times> session" where
  "scan_and_persist env sbom_id sb s =
     (let scan_results = scan_sbom (env_loads env) (env_str env) (trivy_run env) in
      if t_status scan_results \<noteq> ''success'' then
        (Inl (Exception (case t_error scan_results of
                           None \<Rightarrow> TrivyScanFailed [] | Some m \<Rightarrow> m)), s)
      else
        case count_components sb of
          Inl e \<Rightarrow> (Inl e, s)
        | Inr n_components \<Rightarrow>
            (case vulnerable_components_count scan_results of
               None \<Rightarrow> (Inl KeyError, s)
             | Some vulnerable \<Rightarrow>
                 (case fresh_id s of (new_id, s0) \<Rightarrow>
                  let scan_result =
                        \<lparr> sr_id = new_id,
                          sr_sbom_id = sbom_id,
                          sr_status = ''completed'',
                          sr_total_components = n_components,
                          sr_vulnerable_count = vulnerable,
                          critical_count = get_count (t_severity_counts scan_results) ''CRITICAL'',
                          high_count = get_count (t_severity_counts scan_results) ''HIGH'',
                          medium_count = get_count (t_severity_counts scan_results) ''MEDIUM'',
                          low_count = get_count (t_severity_counts scan_results) ''LOW'',
                          scan_duration_seconds = Some (elapsed_seconds env) \<rparr>
                  in case db_flush (db_accepts env) (db_add (ScanResult scan_result) s0) of
                       (Inl e, s1) \<Rightarrow> (Inl e, s1)
                     | (Inr u, s1) \<Rightarrow>
                         (case persist_findings env new_id s1 (t_vulnerabilities scan_results) of
                            (Inl e, s2) \<Rightarrow> (Inl e, s2)
                          | (Inr u, s2) \<Rightarrow>
                              (case db_commit (db_accepts env) s2 of
                                 (Inl e, s3) \<Rightarrow> (Inl e, s3)
                               | (Inr u, s3) \<Rightarrow>
                                   (case total_vulnerabilities scan_results of
                                      None \<Rightarrow> (Inl KeyError, s3)
                                    | Some n \<Rightarrow>
                                        (Inr (TaskSuccess new_id n_components vulnerable n
                                                (t_severity_counts scan_results)
                                                (elapsed_seconds env)), s3)))))))"

text \<open>
  The \<^verbatim>\<open>except Exception\<close> handler of the task: a \<^verbatim>\<open>failed\<close> result is added
  and committed on the session as the exception left it; only if that raises is the
  session rolled back.
\<close>

definition failed_scan :: "nat \<Rightarrow> string \<Rightarrow> scan_result_row" where
  "failed_scan new_id sbom_id =
     \<lparr> sr_id = new_id, sr_sbom_id = sbom_id, sr_status = ''failed'',
       sr_total_components = 0, sr_vulnerable_count = 0,
       critical_count = 0, high_count = 0, medium_count = 0, low_count = 0,
       scan_duration_seconds = None \<rparr>"

definition record_failure :: "environment \<Rightarrow> string \<Rightarrow> session \<Rightarrow> session" where
  "record_failure env sbom_id s =
     (case fresh_id s of (new_id, s0) \<Rightarrow>
      case db_commit (db_accepts env) (db_add (ScanResult (failed_scan new_id sbom_id)) s0) of
        (Inl e, s1) \<Rightarrow> db_rollback s1
      | (Inr u, s1) \<Rightarrow> s1)"

text \<open>
  \<^verbatim>\<open>scan_sbom\<close> of \<^verbatim>\<open>celery_worker.py\<close>: the task's result and the session after
  the \<^verbatim>\<open>finally\<close> clause has closed it.
\<close>

definition scan_sbom_task :: "environment \<Rightarrow> string \<Rightarrow> session \<Rightarrow> task_result \<times> session" where
  "scan_sbom_task env sbom_id s =
     (if \<not> is_uuid env sbom_id then (TaskFailed InvalidSBOMIDFormat, db_close s)
      else case find_sbom env sbom_id of
             None \<Rightarrow> (TaskFailed SBOMNotFound, db_close s)
           | Some sb \<Rightarrow>
               (case scan_and_persist env sbom_id sb s of
                  (Inr result, s') \<Rightarrow> (result, db_close s')
                | (Inl e, s') \<Rightarrow>
                    (TaskFailed (Str e), db_close (record_failure env sbom_id s'))))"

text \<open>The rows of one scan among the rows every reader sees.\<close>

definition rows_of_scan :: "nat \<Rightarrow> row list \<Rightarrow> row list" where
  "rows_of_scan result_id rows =
     filter (\<lambda>r. case r of
                    ScanResult sr \<Rightarrow> sr_id sr = result_id
                  | ScanVulnerability sv \<Rightarrow> scan_result_id sv = result_id
                  | Vulnerability v \<Rightarrow> False) rows"

definition scan_vulnerabilities :: "row list \<Rightarrow> scan_vulnerability_row list" where
  "scan_vulnerabilities rows =
     concat (map (\<lambda>r. case r of ScanVulnerability sv \<Rightarrow> [sv] | _ \<Rightarrow> []) rows)"

definition scan_result_rows :: "row list \<Rightarrow> scan_result_row list" where
  "scan_result_rows rows =
     concat (map (\<lambda>r. case r of ScanResult sr \<Rightarrow> [sr] | _ \<Rightarrow> []) rows)"


section \<open>Example inputs\<close>

text \<open>
  An instance of \<open>py_str\<close> for evaluating examples: \<^verbatim>\<open>str\<close> is the identity on
  strings, and the examples put only strings where it is applied.
\<close>

definition plain_str :: "json \<Rightarrow> string" where
  "plain_str v = (case v of JStr s \<Rightarrow> s | _ \<Rightarrow> [])"

text \<open>
  A stored vulnerability whose severity is \<^verbatim>\<open>NONE\<close>, the base severity of a
  CVSS v3 score of 0.0, with one criterion, and a component it matches.
\<close>

definition example_vulnerability :: vulnerability where
  "example_vulnerability =
     \<lparr> vuln_id = 1, cve_id = ''CVE-2021-0001'', severity = Some ''NONE'',
       cpe_match = CpeList
         [\<lparr> criteria = Some ''cpe:2.3:a:apache:log4j:*'',
            versionStartIncluding = None, versionStartExcluding = None,
            versionEndIncluding = None, versionEndExcluding = Some ''2.15.0'' \<rparr>] \<rparr>"

definition example_component :: component where
  "example_component =
     \<lparr> comp_name = ''log4j-core'', comp_version = ''2.14.1'',
       purl = None, component_type = None \<rparr>"

text \<open>A scanner report with one finding of that severity.\<close>

definition example_report_none :: json where
  "example_report_none =
     JObj [(''Results'', JArr
       [JObj [(''Target'', JStr ''bom.json''),
              (''Vulnerabilities'', JArr
                 [JObj [(''VulnerabilityID'', JStr ''CVE-2021-0001''),
                        (''Severity'', JStr ''NONE''),
                        (''PkgName'', JStr ''log4j-core''),
                        (''InstalledVersion'', JStr ''2.14.1'')]])]])]"

text \<open>
  A scanner report with two findings; the publication date of the second has two
  fractional digits, as the scanner prints a time of 680 milliseconds.
\<close>

definition example_report :: json where
  "example_report =
     JObj [(''Results'', JArr
       [JObj [(''Target'', JStr ''bom.json''),
              (''Vulnerabilities'', JArr
                 [JObj [(''VulnerabilityID'', JStr ''CVE-2021-44228''),
                        (''Severity'', JStr ''CRITICAL''),
                        (''PkgName'', JStr ''log4j-core''),
                        (''InstalledVersion'', JStr ''2.14.1''),
                        (''PublishedDate'', JStr ''2021-12-10T10:15:09Z'')],
                  JObj [(''VulnerabilityID'', JStr ''CVE-2019-17571''),
                        (''Severity'', JStr ''CRITICAL''),
                        (''PkgName'', JStr ''log4j''),
                        (''InstalledVersion'', JStr ''1.2.17''),
                        (''PublishedDate'', JStr ''2019-12-20T17:15:00.68Z'')]])]])]"

text \<open>The dictionary that \<^verbatim>\<open>_parse_trivy_result\<close> returns for that report.\<close>

definition example_parsed :: trivy_result where
  "example_parsed =
     \<lparr> t_status = ''success'', t_error = None,
       t_vulnerabilities =
         [\<lparr> vd_cve_id = JStr ''CVE-2021-44228'', vd_severity = JStr ''CRITICAL'',
            vd_component_name = JStr ''log4j-core'', vd_component_version = JStr ''2.14.1'',
            vd_fixed_version = JStr [], vd_title = JStr [], vd_description = JStr [],
            vd_cvss_score = JNum ''0.0'', vd_cvss_vector = JStr [], vd_references = JArr [],
            vd_target = JStr ''bom.json'',
            vd_published_date = JStr ''2021-12-10T10:15:09Z'',
            vd_last_modified_date = JStr [] \<rparr>,
          \<lparr> vd_cve_id = JStr ''CVE-2019-17571'', vd_severity = JStr ''CRITICAL'',
            vd_component_name = JStr ''log4j'', vd_component_version = JStr ''1.2.17'',
            vd_fixed_version = JStr [], vd_title = JStr [], vd_description = JStr [],
            vd_cvss_score = JNum ''0.0'', vd_cvss_vector = JStr [], vd_references = JArr [],
            vd_target = JStr ''bom.json'',
            vd_published_date = JStr ''2019-12-20T17:15:00.68Z'',
            vd_last_modified_date = JStr [] \<rparr>],
       t_severity_counts =
         [(''CRITICAL'', 2), (''HIGH'', 0), (''MEDIUM'', 0), (''LOW'', 0), (''UNKNOWN'', 0)],
       vulnerable_components_count = Some 2,
       total_vulnerabilities = Some 2 \<rparr>"

text \<open>The dictionary it returns for a report without findings.\<close>

definition no_findings :: trivy_result where
  "no_findings =
     \<lparr> t_status = ''success'', t_error = None, t_vulnerabilities = [],
       t_severity_counts = zero_severity_counts,
       vulnerable_components_count = Some 0, total_vulnerabilities = Some 0 \<rparr>"

text \<open>
  An environment in which the scanner exits with code 1 and prints that report, the date
  parser accepts the first date and rejects the second with \<^verbatim>\<open>ValueError\<close>, and
  the database accepts every row.
\<close>

definition example_sbom :: sbom where
  "example_sbom =
     \<lparr> sbom_filename = ''bom.json'', sbom_fmt = ''cyclonedx'',
       content_json = JObj [(''bomFormat'', JStr ''CycloneDX''),
                            (''components'', JArr [JObj [(''name'', JStr ''log4j-core'')],
                                                   JObj [(''name'', JStr ''log4j'')]])] \<rparr>"

definition example_environment :: environment where
  "example_environment =
     \<lparr> is_uuid = (\<lambda>s. True),
       find_sbom = (\<lambda>s. Some example_sbom),
       trivy_run = Completed \<lparr> returncode = 1, stdout = ''(the report)'', stderr = [] \<rparr>,
       env_loads = (\<lambda>s. Inr example_report),
       env_str = plain_str,
       env_fromisoformat =
         (\<lambda>s. if s = ''2021-12-10T10:15:09+00:00'' then Inr s else Inl ValueError),
       db_accepts = (\<lambda>rows r. True),
       elapsed_seconds = 3 \<rparr>"

chapter \<open>Properties\<close>

section \<open>Name normalization\<close>

lemma underscore_not_az09: "\<not> is_az09 (CHR ''_'')"
  by (simp add: is_az09_def ascii_lower_def ascii_digits_def)

lemma dropWhile_sub_non_az09:
  "dropWhile (\<lambda>d. d = CHR ''_'') (sub_non_az09 cs) =
   sub_non_az09 (dropWhile (\<lambda>d. \<not> is_az09 d) cs)"
  using underscore_not_az09 by (induction cs) (auto simp: sub_non_az09_def)

lemma sub_underscores_sub_non_az09:
  "sub_underscores (sub_non_az09 s) = collapse_runs s"
proof (induction s rule: collapse_runs.induct)
  case 1
  show ?case by (simp add: sub_non_az09_def)
next
  case (2 c cs)
  show ?case
  proof (cases "is_az09 c")
    case True
    then have "c \<noteq> CHR ''_''" using underscore_not_az09 by auto
    with True 2 show ?thesis by (simp add: sub_non_az09_def)
  next
    case False
    have "sub_non_az09 (c # cs) = CHR ''_'' # sub_non_az09 cs"
      using False by (simp add: sub_non_az09_def)
    with False 2 show ?thesis by (simp add: dropWhile_sub_non_az09)
  qed
qed

lemma set_sub_underscores: "set (sub_underscores s) \<subseteq> set s"
proof (induction s rule: sub_underscores.induct)
  case 1
  show ?case by simp
next
  case (2 c cs)
  have "set (dropWhile (\<lambda>d. d = CHR ''_'') cs) \<subseteq> set cs"
    by (rule set_dropWhileD[THEN subsetI])
  with 2 show ?case by (cases "c = CHR ''_''") auto
qed

lemma set_strip_underscore: "set (strip_underscore s) \<subseteq> set s"
  unfolding strip_underscore_def
  by (metis (no_types, lifting) set_dropWhileD set_rev subsetI)

lemma no_double_sub_underscores: "\<not> sublist ''__'' (sub_underscores s)"
proof (induction s rule: sub_underscores.induct)
  case 1
  show ?case by simp
next
  case (2 c cs)
  show ?case
  proof (cases "c = CHR ''_''")
    case True
    define r where "r = dropWhile (\<lambda>d. d = CHR ''_'') cs"
    have "\<not> prefix ''_'' (sub_underscores r)"
    proof (cases r)
      case Nil
      then show ?thesis by simp
    next
      case (Cons d ds)
      then have "r \<noteq> []" by simp
      then have "hd r \<noteq> CHR ''_''" unfolding r_def by (rule hd_dropWhile)
      with Cons show ?thesis by simp
    qed
    with True 2 show ?thesis by (simp add: sublist_Cons_right r_def)
  next
    case False
    with 2 show ?thesis by (simp add: sublist_Cons_right)
  qed
qed

lemma prefix_strip_underscore:
  "prefix (strip_underscore s) (dropWhile (\<lambda>d. d = CHR ''_'') s)"
proof -
  let ?P = "\<lambda>d. d = CHR ''_''"
  have "suffix (dropWhile ?P (rev (dropWhile ?P s))) (rev (dropWhile ?P s))"
    by (rule suffix_dropWhile)
  then show ?thesis
    unfolding strip_underscore_def by (metis rev_rev_ident suffix_to_prefix)
qed

lemma sublist_strip_underscore: "sublist (strip_underscore s) s"
proof -
  have "suffix (dropWhile (\<lambda>d. d = CHR ''_'') s) s" by (rule suffix_dropWhile)
  with prefix_strip_underscore [of s] show ?thesis
    by (meson prefix_imp_sublist suffix_imp_sublist sublist_order.order_trans)
qed

lemma strip_underscore_no_prefix: "\<not> prefix ''_'' (strip_underscore s)"
proof
  let ?P = "\<lambda>d. d = CHR ''_''"
  assume "prefix ''_'' (strip_underscore s)"
  then have "prefix ''_'' (dropWhile ?P s)"
    using prefix_strip_underscore [of s] by (rule prefix_order.order_trans)
  then obtain t where t: "dropWhile ?P s = CHR ''_'' # t" by (auto simp: prefix_def)
  then have "dropWhile ?P s \<noteq> []" by simp
  from hd_dropWhile[OF this] t show False by simp
qed

lemma strip_underscore_no_suffix: "\<not> suffix ''_'' (strip_underscore s)"
proof
  let ?P = "\<lambda>d. d = CHR ''_''"
  let ?t = "dropWhile ?P (rev (dropWhile ?P s))"
  assume "suffix ''_'' (strip_underscore s)"
  then have "prefix ''_'' ?t"
    unfolding strip_underscore_def by (metis rev_rev_ident rev_singleton_conv suffix_to_prefix)
  then obtain u where u: "?t = CHR ''_'' # u" by (auto simp: prefix_def)
  then have "?t \<noteq> []" by simp
  from hd_dropWhile[OF this] u show False by simp
qed

lemma list_all_sub_non_az09:
  "list_all (\<lambda>c. is_az09 c \<or> c = CHR ''_'') (sub_non_az09 s)"
  by (induction s) (auto simp: sub_non_az09_def)

text \<open>
  Claim C3. Name normalization is a total function of the name alone. Its result is the
  lowercased name with every run of characters outside \<^verbatim>\<open>[a-z0-9]\<close> collapsed
  to one underscore and the leading and trailing underscores stripped; it contains only
  characters of \<^verbatim>\<open>[a-z0-9_]\<close>, does not start or end with an underscore and
  contains no two adjacent underscores.
\<close>

theorem normalize_component_name_spec:
  "normalize_component_name name = spec_normalize name
   \<and> list_all (\<lambda>c. c \<in> set (ascii_lower @ ascii_digits @ ''_'')) (normalize_component_name name)
   \<and> \<not> prefix ''_'' (normalize_component_name name)
   \<and> \<not> suffix ''_'' (normalize_component_name name)
   \<and> \<not> sublist ''__'' (normalize_component_name name)"
proof -
  let ?n = "normalize_component_name name"
  let ?u = "sub_underscores (sub_non_az09 (lower name))"
  have 1: "?n = spec_normalize name"
    by (simp add: normalize_component_name_def spec_normalize_def sub_underscores_sub_non_az09)
  have "set ?n \<subseteq> set (sub_non_az09 (lower name))"
    unfolding normalize_component_name_def
    using set_strip_underscore set_sub_underscores by blast
  moreover have "\<forall>c \<in> set (sub_non_az09 (lower name)). is_az09 c \<or> c = CHR ''_''"
    using list_all_sub_non_az09 by (simp add: list_all_iff)
  ultimately have 2: "list_all (\<lambda>c. c \<in> set (ascii_lower @ ascii_digits @ ''_'')) ?n"
    by (auto simp: list_all_iff is_az09_def)
  have 3: "\<not> prefix ''_'' ?n"
    unfolding normalize_component_name_def by (rule strip_underscore_no_prefix)
  have 4: "\<not> suffix ''_'' ?n"
    unfolding normalize_component_name_def by (rule strip_underscore_no_suffix)
  have "sublist ?n ?u"
    unfolding normalize_component_name_def by (rule sublist_strip_underscore)
  then have 5: "\<not> sublist ''__'' ?n"
    using no_double_sub_underscores sublist_order.order_trans by blast
  from 1 2 3 4 5 show ?thesis by blast
qed

theorem normalize_component_name_spec_witness:
  "normalize_component_name ''--Log4j  Core__x!'' = ''log4j_core_x''
   \<and> spec_normalize ''--Log4j  Core__x!'' = ''log4j_core_x''
   \<and> \<not> sublist ''__'' ''log4j_core_x''"
proof -
  have e: "normalize_component_name ''--Log4j  Core__x!'' = ''log4j_core_x''"
    by (simp add: normalize_component_name_def strip_underscore_def sub_non_az09_def
        lower_def lower_char_def is_az09_def ascii_upper_def ascii_lower_def ascii_digits_def)
  note t = normalize_component_name_spec [of "''--Log4j  Core__x!''"]
  from t have s: "spec_normalize ''--Log4j  Core__x!'' = ''log4j_core_x''"
    unfolding e by simp
  from t have d: "\<not> sublist ''__'' ''log4j_core_x''"
    unfolding e by blast
  from e s d show ?thesis by blast
qed


section \<open>CPE product matching\<close>

lemma substring_of_iff_sublist: "substring_of xs ys \<longleftrightarrow> sublist xs ys"
  by (induction ys) (auto simp: sublist_Cons_right)

lemma split_on_not_Nil: "split_on sep s \<noteq> []"
  by (induction s) (auto split: list.splits)

text \<open>The number of fields is the number of separators plus one.\<close>

lemma length_split_on: "length (split_on sep s) = Suc (count_list s sep)"
  by (induction s) (auto split: list.splits simp: split_on_not_Nil)

lemmas string_eval =
  match_cpe_product_def spec_name_eligible_def lower_def lower_char_def
  ascii_upper_def ascii_lower_def ascii_digits_def Let_def

text \<open>
  Claim C2, as the specification words it, fails on the code in two places. An empty
  vendor field is a substring of every name, but the code tests the vendor only when
  it is not empty; and the code lowercases both fields before comparing them, so a
  criterion written with capitals matches although its raw fields do not.
\<close>

theorem match_cpe_product_counterexample:
  "spec_name_eligible ''cpe:2.3:a::zzz'' ''abc''
   \<and> \<not> match_cpe_product ''cpe:2.3:a::zzz'' ''abc''
   \<and> \<not> spec_name_eligible ''cpe:2.3:a:Apache:Log4j'' ''log4j''
   \<and> match_cpe_product ''cpe:2.3:a:Apache:Log4j'' ''log4j''"
  by (simp add: string_eval)

text \<open>
  Claim C2, amended. A criterion is name-eligible for a normalized name exactly when it
  has at least five colon-delimited fields and, with vendor and product the lowercased
  4th and 5th fields, the product is a substring of the name, or the name is a substring
  of the product, or the vendor is not empty and either the vendor or
  \<^verbatim>\<open><vendor>_<product>\<close> is a substring of the name. Substrings are contiguous
  sublists (\<^const>\<open>sublist\<close>).
\<close>

theorem match_cpe_product_iff:
  "match_cpe_product cpe n =
     (let parts = split_on CHR '':'' cpe in
      5 \<le> length parts \<and>
      (let vendor = lower (parts ! 3); product = lower (parts ! 4)
       in sublist product n \<or> sublist n product \<or>
          (vendor \<noteq> [] \<and> (sublist vendor n \<or> sublist (vendor @ ''_'' @ product) n))))"
  by (auto simp: match_cpe_product_def Let_def substring_of_iff_sublist)

theorem match_cpe_product_iff_witness:
  "match_cpe_product ''cpe:2.3:a:apache:log4j:*'' ''log4j_core''
   \<and> sublist ''log4j'' ''log4j_core''
   \<and> \<not> match_cpe_product ''cpe:2.3:a'' ''log4j_core''"
proof -
  have a: "match_cpe_product ''cpe:2.3:a:apache:log4j:*'' ''log4j_core''"
    by (simp add: string_eval)
  have "split_on CHR '':'' ''cpe:2.3:a:apache:log4j:*'' =
          [''cpe'', ''2.3'', ''a'', ''apache'', ''log4j'', ''*'']"
    by simp
  moreover have "\<not> sublist ''log4j_core'' ''log4j''"
    by (simp add: sublist_code)
  moreover have "\<not> sublist ''apache'' ''log4j_core''"
    by (simp add: sublist_code)
  moreover have "\<not> sublist ''apache_log4j'' ''log4j_core''"
    by (simp add: sublist_code)
  ultimately have b: "sublist ''log4j'' ''log4j_core''"
    using a match_cpe_product_iff [of "''cpe:2.3:a:apache:log4j:*''" "''log4j_core''"]
    by (simp add: Let_def lower_def lower_char_def ascii_upper_def ascii_lower_def)
  have c: "\<not> match_cpe_product ''cpe:2.3:a'' ''log4j_core''"
    using match_cpe_product_iff [of "''cpe:2.3:a''" "''log4j_core''"] by simp
  from a b c show ?thesis by blast
qed


section \<open>Version range evaluation\<close>

lemma bound_check_parseable:
  assumes "parse [] = None" "parseable parse b"
  shows "bound_check parse viol c b =
           (if bound_holds parse (\<lambda>v x. \<not> viol v x) c b then Continue else Returned False)"
  using assms
  by (cases b) (auto simp: bound_check_def bound_holds_def parseable_def split: option.splits)

lemma check_version_range_general:
  fixes parse :: "string \<Rightarrow> ('v::linorder) option"
  assumes "parse [] = None" "parse v = Some cv"
    "parseable parse si" "parseable parse se" "parseable parse ei" "parseable parse ee"
  shows "check_version_range parse v si se ei ee =
      (bound_holds parse (\<lambda>v b. v \<ge> b) cv si \<and> bound_holds parse (\<lambda>v b. v > b) cv se \<and>
       bound_holds parse (\<lambda>v b. v \<le> b) cv ei \<and> bound_holds parse (\<lambda>v b. v < b) cv ee)"
proof -
  have bc: "\<And>viol b. parseable parse b \<Longrightarrow> bound_check parse viol cv b =
           (if bound_holds parse (\<lambda>v x. \<not> viol v x) cv b then Continue else Returned False)"
    using assms(1) by (rule bound_check_parseable)
  have "version_range_try parse v si se ei ee =
          (if bound_holds parse (\<lambda>v b. v \<ge> b) cv si \<and> bound_holds parse (\<lambda>v b. v > b) cv se \<and>
              bound_holds parse (\<lambda>v b. v \<le> b) cv ei \<and> bound_holds parse (\<lambda>v b. v < b) cv ee
           then Returned True else Returned False)"
    unfolding version_range_try_def
    by (simp add: assms(2) bc [OF assms(3)] bc [OF assms(4)] bc [OF assms(5)] bc [OF assms(6)]
        not_less not_le)
  then show ?thesis by (simp add: check_version_range_def)
qed

lemma release_examples:
  "\<not> check_version_range parse_release ''0.9'' (Some ''1.0'') None None (Some ''2.0'')"
  "check_version_range parse_release ''1.0'' (Some ''1.0'') None None (Some ''2.0'')"
  "check_version_range parse_release ''1.9.9'' (Some ''1.0'') None None (Some ''2.0'')"
  "\<not> check_version_range parse_release ''2.0'' (Some ''1.0'') None None (Some ''2.0'')"
  by code_simp+

text \<open>
  Claim C1. For a version parser that rejects the empty string, a component version
  that parses and bounds that parse wherever they are present, the range check returns
  true exactly when every present bound holds: the version is at least
  \<^verbatim>\<open>startIncl\<close>, above \<^verbatim>\<open>startExcl\<close>, at most \<^verbatim>\<open>endIncl\<close> and
  below \<^verbatim>\<open>endExcl\<close>; an absent bound imposes nothing. With dotted numeric
  releases, \<^verbatim>\<open>startIncl = 1.0\<close> and \<^verbatim>\<open>endExcl = 2.0\<close>: 0.9 does not match,
  1.0 matches, 1.9.9 matches and 2.0 does not match.
\<close>

theorem check_version_range_in_range:
  fixes parse :: "string \<Rightarrow> ('v::linorder) option"
  shows
  "(parse [] = None \<and> parse v = Some cv \<and> parseable parse si \<and> parseable parse se \<and>
    parseable parse ei \<and> parseable parse ee \<longrightarrow>
    check_version_range parse v si se ei ee =
      (bound_holds parse (\<lambda>v b. v \<ge> b) cv si \<and> bound_holds parse (\<lambda>v b. v > b) cv se \<and>
       bound_holds parse (\<lambda>v b. v \<le> b) cv ei \<and> bound_holds parse (\<lambda>v b. v < b) cv ee))
   \<and> \<not> check_version_range parse_release ''0.9'' (Some ''1.0'') None None (Some ''2.0'')
   \<and> check_version_range parse_release ''1.0'' (Some ''1.0'') None None (Some ''2.0'')
   \<and> check_version_range parse_release ''1.9.9'' (Some ''1.0'') None None (Some ''2.0'')
   \<and> \<not> check_version_range parse_release ''2.0'' (Some ''1.0'') None None (Some ''2.0'')"
  using check_version_range_general [of parse v cv si se ei ee] release_examples by blast

theorem check_version_range_in_range_witness:
  "parse_release [] = None \<and> parse_release ''1.9.9'' = Some [1, 9, 9]
   \<and> parseable parse_release (Some ''1.0'') \<and> parseable parse_release None
   \<and> parseable parse_release (Some ''2.0'')
   \<and> bound_holds parse_release (\<lambda>v b. v \<ge> b) [1, 9, 9] (Some ''1.0'')
   \<and> bound_holds parse_release (\<lambda>v b. v < b) [1, 9, 9] (Some ''2.0'')
   \<and> check_version_range parse_release ''1.9.9'' (Some ''1.0'') None None (Some ''2.0'') =
       (bound_holds parse_release (\<lambda>v b. v \<ge> b) [1, 9, 9] (Some ''1.0'') \<and>
        bound_holds parse_release (\<lambda>v b. v > b) [1, 9, 9] None \<and>
        bound_holds parse_release (\<lambda>v b. v \<le> b) [1, 9, 9] None \<and>
        bound_holds parse_release (\<lambda>v b. v < b) [1, 9, 9] (Some ''2.0''))"
proof -
  have h1: "parse_release [] = None" by code_simp
  have h2: "parse_release ''1.9.9'' = Some [1, 9, 9]" by code_simp
  have h3: "parseable parse_release (Some ''1.0'')" by code_simp
  have h4: "parseable parse_release None" by (simp add: parseable_def)
  have h5: "parseable parse_release (Some ''2.0'')" by code_simp
  have h6: "bound_holds parse_release (\<lambda>v b. v \<ge> b) [1, 9, 9] (Some ''1.0'')" by code_simp
  have h7: "bound_holds parse_release (\<lambda>v b. v < b) [1, 9, 9] (Some ''2.0'')" by code_simp
  from check_version_range_in_range
         [of parse_release "''1.9.9''" "[1, 9, 9]" "Some ''1.0''" None None "Some ''2.0''"]
       h1 h2 h3 h4 h5 h6 h7
  show ?thesis by blast
qed

lemma check_version_range_unparsed:
  fixes parse :: "string \<Rightarrow> ('v::linorder) option"
  assumes "parse v = None"
  shows "check_version_range parse v si se ei ee = (v \<noteq> [] \<and> si = Some v)"
  using assms
  by (cases si) (auto simp: check_version_range_def version_range_try_def version_range_except_def)

text \<open>
  Claim C6, as stated, fails when the component version is the empty string: it does not
  parse, \<^verbatim>\<open>startIncl\<close> is present and equal to it, and the check returns false,
  because the fallback tests \<^verbatim>\<open>startIncl\<close> for truth, not for presence.
\<close>

theorem check_version_range_fallback_counterexample:
  "parse_release '''' = None
   \<and> Some '''' \<noteq> (None :: string option)
   \<and> \<not> check_version_range parse_release '''' (Some '''') None None None"
  by code_simp

text \<open>
  Claim C6, amended. When the component version does not parse, the range check returns
  true exactly when \<^verbatim>\<open>startIncl\<close> is present, not empty and equal to the
  component's version string, whatever the other bounds are; the failure is handled
  inside the check, whose only results are true and false.
\<close>

theorem check_version_range_fallback:
  fixes parse :: "string \<Rightarrow> ('v::linorder) option"
  shows "parse v = None \<Longrightarrow>
         check_version_range parse v si se ei ee = (v \<noteq> [] \<and> si = Some v)"
  by (rule check_version_range_unparsed)

theorem check_version_range_fallback_witness:
  "parse_release ''unknown'' = None
   \<and> check_version_range parse_release ''unknown'' (Some ''unknown'') None (Some ''2.0'') None
   \<and> \<not> check_version_range parse_release ''unknown'' None (Some ''unknown'') None None"
proof -
  have h: "parse_release ''unknown'' = None" by code_simp
  from check_version_range_fallback
         [of parse_release "''unknown''" "Some ''unknown''" None "Some ''2.0''" None]
       check_version_range_fallback
         [of parse_release "''unknown''" None "Some ''unknown''" None None] h
  show ?thesis by simp
qed


section \<open>SBOM format detection\<close>

lemma map_of_in_fst: "(key \<in> fst ` set kvs) = (map_of kvs key \<noteq> None)"
  by (simp add: map_of_eq_None_iff)

lemma and_then_Inr_iff: "and_then r f = Inr y \<longleftrightarrow> (\<exists>x. r = Inr x \<and> f x = Inr y)"
  by (cases r) (auto simp: and_then_def)

lemma and_then_Inl_iff:
  "and_then r f = Inl e \<longleftrightarrow> (r = Inl e \<or> (\<exists>x. r = Inr x \<and> f x = Inl e))"
  by (cases r) (auto simp: and_then_def)

lemma parse_json_body_obj:
  "SBOMParser_parse_json_body (JObj kvs) =
     (if map_of kvs ''bomFormat'' = Some (JStr ''CycloneDX'')
      then CycloneDXParser_parse_json (JObj kvs)
      else if map_of kvs ''spdxVersion'' \<noteq> None then SPDXParser_parse_json (JObj kvs)
      else Inl (SBOMParserException UnknownSBOMFormatInJSON))"
  by (auto simp: SBOMParser_parse_json_body_def and_then_def map_of_in_fst split: option.splits)

lemma cdx_json_format:
  "CycloneDXParser_parse_json d = Inr r \<Longrightarrow> sbom_format r = ''cyclonedx''"
  by (auto simp: CycloneDXParser_parse_json_def and_then_Inr_iff)

lemma spdx_json_format: "SPDXParser_parse_json d = Inr r \<Longrightarrow> sbom_format r = ''spdx''"
  by (auto simp: SPDXParser_parse_json_def and_then_Inr_iff)

text \<open>
  The extractors read with \<^verbatim>\<open>.get\<close> and iterate, so they raise only
  \<^verbatim>\<open>AttributeError\<close> or \<^verbatim>\<open>TypeError\<close>: the handler for
  \<^verbatim>\<open>JSONDecodeError\<close> in \<^verbatim>\<open>_parse_json\<close> never catches what they raise.
\<close>

lemma py_get_not_JSONDecodeError: "py_get d k v \<noteq> Inl JSONDecodeError"
  by (cases d) auto

lemma py_iter_not_JSONDecodeError: "py_iter d \<noteq> Inl JSONDecodeError"
  by (cases d) auto

lemma cyclonedx_component_not_JSONDecodeError: "cyclonedx_component c \<noteq> Inl JSONDecodeError"
  by (auto simp: cyclonedx_component_def and_then_Inl_iff py_get_not_JSONDecodeError)

lemma spdx_component_not_JSONDecodeError: "spdx_component c \<noteq> Inl JSONDecodeError"
  by (auto simp: spdx_component_def and_then_Inl_iff py_get_not_JSONDecodeError)

lemma map_raising_not: "(\<And>x. f x \<noteq> Inl e) \<Longrightarrow> map_raising f xs \<noteq> Inl e"
  by (induction xs) (auto simp: and_then_Inl_iff)

lemma cdx_json_not_JSONDecodeError: "CycloneDXParser_parse_json d \<noteq> Inl JSONDecodeError"
  by (auto simp: CycloneDXParser_parse_json_def and_then_Inl_iff py_get_not_JSONDecodeError
      py_iter_not_JSONDecodeError map_raising_not cyclonedx_component_not_JSONDecodeError)

lemma spdx_json_not_JSONDecodeError: "SPDXParser_parse_json d \<noteq> Inl JSONDecodeError"
  by (auto simp: SPDXParser_parse_json_def and_then_Inl_iff py_get_not_JSONDecodeError
      py_iter_not_JSONDecodeError map_raising_not spdx_component_not_JSONDecodeError)

lemma parse_json_obj:
  assumes "loads content = Inr (JObj kvs)"
  shows "SBOMParser_parse_json loads content = SBOMParser_parse_json_body (JObj kvs)"
proof -
  have "SBOMParser_parse_json_body (JObj kvs) \<noteq> Inl JSONDecodeError"
    by (simp add: parse_json_body_obj cdx_json_not_JSONDecodeError spdx_json_not_JSONDecodeError)
  then show ?thesis
    using assms by (auto simp: SBOMParser_parse_json_def and_then_def split: sum.splits exn.splits)
qed

lemma parse_json_route:
  assumes "suffix ''.json'' filename" "loads content = Inr (JObj kvs)"
  shows "SBOMParser_parse loads fromstring content filename =
     (if map_of kvs ''bomFormat'' = Some (JStr ''CycloneDX'')
      then failed_to_parse (CycloneDXParser_parse_json (JObj kvs))
      else if map_of kvs ''spdxVersion'' \<noteq> None
      then failed_to_parse (SPDXParser_parse_json (JObj kvs))
      else Inl (SBOMParserException (FailedToParseSBOM
                  (SBOMParserException UnknownSBOMFormatInJSON))))"
  using assms
  by (simp add: SBOMParser_parse_def parse_json_obj parse_json_body_obj failed_to_parse_def)

lemma parse_xml_route:
  assumes "\<not> suffix ''.json'' filename" "suffix ''.xml'' filename"
    "fromstring content = Inr root"
  shows "SBOMParser_parse loads fromstring content filename =
     (if sublist ''cyclonedx'' (lower (tag root)) then Inr (CycloneDXParser_parse_xml root)
      else if sublist ''spdx'' (lower (tag root)) then Inr (SPDXParser_parse_xml root)
      else Inl (SBOMParserException (FailedToParseSBOM
                  (SBOMParserException UnknownSBOMFormatInXML))))"
  using assms
  by (simp add: SBOMParser_parse_def SBOMParser_parse_xml_def and_then_def
      substring_of_iff_sublist failed_to_parse_def)

lemma format_of_failed_to_parse_cdx:
  "format_of (failed_to_parse (CycloneDXParser_parse_json d)) \<noteq> Some ''spdx''"
  by (cases "CycloneDXParser_parse_json d")
     (auto simp: format_of_def failed_to_parse_def dest: cdx_json_format)

lemma format_of_failed_to_parse_spdx:
  "format_of (failed_to_parse (SPDXParser_parse_json d)) \<noteq> Some ''cyclonedx''"
  by (cases "SPDXParser_parse_json d")
     (auto simp: format_of_def failed_to_parse_def dest: spdx_json_format)

text \<open>
  Claim C7, as stated, fails on a JSON document that has both keys: the top-level key
  \<^verbatim>\<open>spdxVersion\<close> is present, yet the document goes to the CycloneDX extractor,
  because \<^verbatim>\<open>bomFormat\<close> is tested first and \<^verbatim>\<open>spdxVersion\<close> only in the
  \<^verbatim>\<open>elif\<close>.
\<close>

theorem SBOMParser_parse_counterexample:
  "map_of [(''bomFormat'', JStr ''CycloneDX''), (''spdxVersion'', JStr ''SPDX-2.3'')]
     ''spdxVersion'' = Some (JStr ''SPDX-2.3'')
   \<and> SBOMParser_parse
        (\<lambda>c. Inr (JObj [(''bomFormat'', JStr ''CycloneDX''), (''spdxVersion'', JStr ''SPDX-2.3'')]))
        (\<lambda>c. Inl XMLParseError) ''{}'' ''bom.json''
      = CycloneDXParser_parse_json
          (JObj [(''bomFormat'', JStr ''CycloneDX''), (''spdxVersion'', JStr ''SPDX-2.3'')])
   \<and> format_of (SBOMParser_parse
        (\<lambda>c. Inr (JObj [(''bomFormat'', JStr ''CycloneDX''), (''spdxVersion'', JStr ''SPDX-2.3'')]))
        (\<lambda>c. Inl XMLParseError) ''{}'' ''bom.json'') = Some ''cyclonedx''
   \<and> format_of (SPDXParser_parse_json
        (JObj [(''bomFormat'', JStr ''CycloneDX''), (''spdxVersion'', JStr ''SPDX-2.3'')]))
      = Some ''spdx''"
  by (simp add: SBOMParser_parse_def SBOMParser_parse_json_def SBOMParser_parse_json_body_def
      and_then_def CycloneDXParser_parse_json_def SPDXParser_parse_json_def suffix_to_prefix
      format_of_def failed_to_parse_def)

text \<open>
  Claim C7, amended. For a payload whose file name ends in \<^verbatim>\<open>.json\<close> and which
  decodes to a JSON object, \<^verbatim>\<open>parse\<close> gives the outcome of the CycloneDX extractor
  iff the top-level key \<^verbatim>\<open>bomFormat\<close> equals \<^verbatim>\<open>"CycloneDX"\<close>, the outcome of
  the SPDX extractor iff that is not so and the top-level key \<^verbatim>\<open>spdxVersion\<close> is
  present, and raises the parser's exception for an unknown format otherwise; an
  exception of an extractor leaves as the parser's exception. For a payload whose file
  name ends in \<^verbatim>\<open>.xml\<close> and which decodes to an element, the lowercased tag of the
  root decides: the CycloneDX extractor if it contains \<^verbatim>\<open>cyclonedx\<close>, else the
  SPDX extractor if it contains \<^verbatim>\<open>spdx\<close>, else the parser's exception. A
  successful result has the format \<^verbatim>\<open>cyclonedx\<close> or \<^verbatim>\<open>spdx\<close> of its
  extractor.
\<close>

theorem SBOMParser_parse_routing:
  "(suffix ''.json'' filename \<and> loads content = Inr (JObj kvs) \<longrightarrow>
      SBOMParser_parse loads fromstring content filename =
        (if map_of kvs ''bomFormat'' = Some (JStr ''CycloneDX'')
         then failed_to_parse (CycloneDXParser_parse_json (JObj kvs))
         else if map_of kvs ''spdxVersion'' \<noteq> None
         then failed_to_parse (SPDXParser_parse_json (JObj kvs))
         else Inl (SBOMParserException (FailedToParseSBOM
                     (SBOMParserException UnknownSBOMFormatInJSON))))
      \<and> (format_of (SBOMParser_parse loads fromstring content filename) = Some ''cyclonedx''
           \<longrightarrow> map_of kvs ''bomFormat'' = Some (JStr ''CycloneDX''))
      \<and> (format_of (SBOMParser_parse loads fromstring content filename) = Some ''spdx''
           \<longrightarrow> map_of kvs ''bomFormat'' \<noteq> Some (JStr ''CycloneDX'')
               \<and> map_of kvs ''spdxVersion'' \<noteq> None))
   \<and> (\<not> suffix ''.json'' filename \<and> suffix ''.xml'' filename \<and>
      fromstring content = Inr root \<longrightarrow>
      SBOMParser_parse loads fromstring content filename =
        (if sublist ''cyclonedx'' (lower (tag root)) then Inr (CycloneDXParser_parse_xml root)
         else if sublist ''spdx'' (lower (tag root)) then Inr (SPDXParser_parse_xml root)
         else Inl (SBOMParserException (FailedToParseSBOM
                     (SBOMParserException UnknownSBOMFormatInXML)))))"
proof -
  have json: "suffix ''.json'' filename \<and> loads content = Inr (JObj kvs) \<longrightarrow>
      SBOMParser_parse loads fromstring content filename =
        (if map_of kvs ''bomFormat'' = Some (JStr ''CycloneDX'')
         then failed_to_parse (CycloneDXParser_parse_json (JObj kvs))
         else if map_of kvs ''spdxVersion'' \<noteq> None
         then failed_to_parse (SPDXParser_parse_json (JObj kvs))
         else Inl (SBOMParserException (FailedToParseSBOM
                     (SBOMParserException UnknownSBOMFormatInJSON))))"
    using parse_json_route by blast
  have f1: "suffix ''.json'' filename \<and> loads content = Inr (JObj kvs) \<longrightarrow>
      (format_of (SBOMParser_parse loads fromstring content filename) = Some ''cyclonedx''
           \<longrightarrow> map_of kvs ''bomFormat'' = Some (JStr ''CycloneDX''))"
    using json format_of_failed_to_parse_spdx [of "JObj kvs"]
    by (auto simp: format_of_def split: if_splits)
  have f2: "suffix ''.json'' filename \<and> loads content = Inr (JObj kvs) \<longrightarrow>
      (format_of (SBOMParser_parse loads fromstring content filename) = Some ''spdx''
           \<longrightarrow> map_of kvs ''bomFormat'' \<noteq> Some (JStr ''CycloneDX'')
               \<and> map_of kvs ''spdxVersion'' \<noteq> None)"
    using json format_of_failed_to_parse_cdx [of "JObj kvs"]
    by (auto simp: format_of_def split: if_splits)
  have xml: "\<not> suffix ''.json'' filename \<and> suffix ''.xml'' filename \<and>
      fromstring content = Inr root \<longrightarrow>
      SBOMParser_parse loads fromstring content filename =
        (if sublist ''cyclonedx'' (lower (tag root)) then Inr (CycloneDXParser_parse_xml root)
         else if sublist ''spdx'' (lower (tag root)) then Inr (SPDXParser_parse_xml root)
         else Inl (SBOMParserException (FailedToParseSBOM
                     (SBOMParserException UnknownSBOMFormatInXML))))"
    using parse_xml_route by blast
  from json f1 f2 xml show ?thesis by blast
qed

theorem SBOMParser_parse_routing_witness:
  "SBOMParser_parse (\<lambda>c. Inr (JObj [(''spdxVersion'', JStr ''SPDX-2.3'')]))
       (\<lambda>c. Inl XMLParseError) ''{}'' ''bom.json''
     = failed_to_parse (SPDXParser_parse_json (JObj [(''spdxVersion'', JStr ''SPDX-2.3'')]))
   \<and> SBOMParser_parse (\<lambda>c. Inl JSONDecodeError)
       (\<lambda>c. Inr (Element ''{http://cyclonedx.org/schema/bom/1.4}bom'' [] None []))
       ''<bom/>'' ''bom.xml''
     = Inr (CycloneDXParser_parse_xml
              (Element ''{http://cyclonedx.org/schema/bom/1.4}bom'' [] None []))"
proof -
  have j: "suffix ''.json'' ''bom.json''" by (simp add: suffix_to_prefix)
  have x: "\<not> suffix ''.json'' ''bom.xml''" "suffix ''.xml'' ''bom.xml''"
    by (simp_all add: suffix_to_prefix)
  have t: "sublist ''cyclonedx''
             (lower (tag (Element ''{http://cyclonedx.org/schema/bom/1.4}bom'' [] None [])))"
    by (simp add: sublist_code lower_def lower_char_def ascii_upper_def ascii_lower_def)
  from SBOMParser_parse_routing
         [of "''bom.json''" "\<lambda>c. Inr (JObj [(''spdxVersion'', JStr ''SPDX-2.3'')])" "''{}''"
             "[(''spdxVersion'', JStr ''SPDX-2.3'')]" "\<lambda>c. Inl XMLParseError"] j
  have a: "SBOMParser_parse (\<lambda>c. Inr (JObj [(''spdxVersion'', JStr ''SPDX-2.3'')]))
       (\<lambda>c. Inl XMLParseError) ''{}'' ''bom.json''
     = failed_to_parse (SPDXParser_parse_json (JObj [(''spdxVersion'', JStr ''SPDX-2.3'')]))"
    by simp
  from SBOMParser_parse_routing
         [of "''bom.xml''" "\<lambda>c. Inl JSONDecodeError" "''<bom/>''" "[]"
             "\<lambda>c. Inr (Element ''{http://cyclonedx.org/schema/bom/1.4}bom'' [] None [])"
             "Element ''{http://cyclonedx.org/schema/bom/1.4}bom'' [] None []"] x t
  have b: "SBOMParser_parse (\<lambda>c. Inl JSONDecodeError)
       (\<lambda>c. Inr (Element ''{http://cyclonedx.org/schema/bom/1.4}bom'' [] None []))
       ''<bom/>'' ''bom.xml''
     = Inr (CycloneDXParser_parse_xml
              (Element ''{http://cyclonedx.org/schema/bom/1.4}bom'' [] None []))"
    by simp
  from a b show ?thesis by blast
qed


section \<open>The matcher\<close>

text \<open>
  Claim C10. A criterion whose CPE string has at least five colon-delimited fields and
  an empty 5th field (the product) is name-eligible for every normalized component
  name, empty or not, because the empty product is a substring of every name; the
  criteria loop therefore puts every component to the version-range check of such a
  criterion.
\<close>

theorem empty_product_always_eligible:
  fixes parse :: "string \<Rightarrow> ('v::linorder) option"
  assumes "5 \<le> length (split_on CHR '':'' cpe)"
    and "split_on CHR '':'' cpe ! 4 = []"
    and "criteria entry = Some cpe"
  shows "match_cpe_product cpe (normalize_component_name (comp_name component))
    \<and> match_cpe_product cpe n
    \<and> criteria_loop parse component (normalize_component_name (comp_name component))
         (entry # entries) =
       (check_version_range parse (comp_version component)
          (versionStartIncluding entry) (versionStartExcluding entry)
          (versionEndIncluding entry) (versionEndExcluding entry)
        \<or> criteria_loop parse component (normalize_component_name (comp_name component))
             entries)"
proof -
  have m: "match_cpe_product cpe k" for k
    using assms(1,2)
    by (simp add: match_cpe_product_def Let_def lower_def substring_of_iff_sublist)
  then show ?thesis using assms(3) by (simp add: Let_def)
qed

theorem empty_product_always_eligible_witness:
  "5 \<le> length (split_on CHR '':'' ''cpe:2.3:a:acme::1.0'')
   \<and> split_on CHR '':'' ''cpe:2.3:a:acme::1.0'' ! 4 = []
   \<and> match_cpe_product ''cpe:2.3:a:acme::1.0'' (normalize_component_name ''Log4j-Core'')
   \<and> match_cpe_product ''cpe:2.3:a:acme::1.0'' ''zlib''"
proof -
  have h1: "5 \<le> length (split_on CHR '':'' ''cpe:2.3:a:acme::1.0'')" by simp
  have h2: "split_on CHR '':'' ''cpe:2.3:a:acme::1.0'' ! 4 = []" by simp
  have h3: "criteria \<lparr> criteria = Some ''cpe:2.3:a:acme::1.0'',
               versionStartIncluding = None, versionStartExcluding = None,
               versionEndIncluding = None, versionEndExcluding = None \<rparr>
            = Some ''cpe:2.3:a:acme::1.0''" by simp
  from empty_product_always_eligible
         [where parse = parse_release and n = "''zlib''" and entries = "[]"
            and component = "\<lparr> comp_name = ''Log4j-Core'', comp_version = ''2.14.1'',
                                purl = None, component_type = None \<rparr>",
          OF h1 h2 h3] h1 h2
  show ?thesis by simp
qed


section \<open>Severity aggregation\<close>

lemma sum_update_count:
  "sum_list (map snd (AList.update k (Suc (get_count d k)) d)) = Suc (sum_list (map snd d))"
  by (induction d) (auto simp: get_count_def)

text \<open>
  One match changes exactly one bucket of the matcher's tallies, the one named by
  \<^verbatim>\<open>vuln.severity or 'UNKNOWN'\<close>, and adds one to it.
\<close>

lemma get_count_update:
  "get_count (AList.update k v d) k' = (if k' = k then v else get_count d k')"
  by (simp add: get_count_def update_conv')

lemma record_vulnerability_bucket:
  "get_count (severity_counts (record_vulnerability r v)) k =
     (if k = severity_or_unknown v then Suc (get_count (severity_counts r) k)
      else get_count (severity_counts r) k)"
  by (simp add: record_vulnerability_def Let_def get_count_update)

text \<open>
  The scanner adapter counts a severity that is not one of its five keys under
  \<^verbatim>\<open>UNKNOWN\<close> and never adds a key.
\<close>

lemma keys_update: "k \<in> fst ` set d \<Longrightarrow> fst ` set (AList.update k v d) = fst ` set d"
  by (simp add: dom_update insert_absorb)

lemma trivy_tally_Inr:
  assumes "trivy_tally counts sev = Inr counts'" and "''UNKNOWN'' \<in> fst ` set counts"
  shows "\<exists>k. k \<in> fst ` set counts \<and> counts' = AList.update k (get_count counts k + 1) counts"
proof (cases sev)
  case (JStr s)
  show ?thesis
  proof (cases "s \<in> fst ` set counts")
    case True
    with assms JStr have "counts' = AList.update s (get_count counts s + 1) counts" by simp
    with True show ?thesis by blast
  next
    case False
    with assms JStr have
      "counts' = AList.update ''UNKNOWN'' (get_count counts ''UNKNOWN'' + 1) counts" by simp
    with assms(2) show ?thesis by blast
  qed
next
  case JNull
  with assms have
    "counts' = AList.update ''UNKNOWN'' (get_count counts ''UNKNOWN'' + 1) counts" by simp
  with assms(2) show ?thesis by blast
next
  case (JBool b)
  with assms have
    "counts' = AList.update ''UNKNOWN'' (get_count counts ''UNKNOWN'' + 1) counts" by simp
  with assms(2) show ?thesis by blast
next
  case (JNum n)
  with assms have
    "counts' = AList.update ''UNKNOWN'' (get_count counts ''UNKNOWN'' + 1) counts" by simp
  with assms(2) show ?thesis by blast
next
  case (JArr xs)
  with assms show ?thesis by simp
next
  case (JObj kvs)
  with assms show ?thesis by simp
qed

lemma trivy_tally_keys:
  assumes "trivy_tally counts sev = Inr counts'" and "''UNKNOWN'' \<in> fst ` set counts"
  shows "fst ` set counts' = fst ` set counts"
proof -
  from trivy_tally_Inr [OF assms] obtain k where k: "k \<in> fst ` set counts"
    and c: "counts' = AList.update k (get_count counts k + 1) counts" by blast
  show ?thesis unfolding c using k by (rule keys_update)
qed

lemma record_vulnerability_fields:
  "sum_list (map snd (severity_counts (record_vulnerability r v))) =
     Suc (sum_list (map snd (severity_counts r)))"
  "vulnerabilities_found (record_vulnerability r v) = vulnerabilities_found r @ [v]"
  "vulnerable_components (record_vulnerability r v) = vulnerable_components r"
  "total_components (record_vulnerability r v) = total_components r"
  by (simp_all add: record_vulnerability_def Let_def sum_update_count)

lemma foldl_record_vulnerability:
  "sum_list (map snd (severity_counts (foldl record_vulnerability r vs))) =
     sum_list (map snd (severity_counts r)) + length vs
   \<and> vulnerabilities_found (foldl record_vulnerability r vs) = vulnerabilities_found r @ vs
   \<and> vulnerable_components (foldl record_vulnerability r vs) = vulnerable_components r
   \<and> total_components (foldl record_vulnerability r vs) = total_components r"
  by (induction vs arbitrary: r) (simp_all add: record_vulnerability_fields)

lemma scan_component_fields:
  fixes parse :: "string \<Rightarrow> ('v::linorder) option"
  shows
  "sum_list (map snd (severity_counts (scan_component parse loads store r c))) =
     sum_list (map snd (severity_counts r)) +
     length (find_vulnerabilities_for_component parse loads store c)"
  "vulnerabilities_found (scan_component parse loads store r c) =
     vulnerabilities_found r @ find_vulnerabilities_for_component parse loads store c"
  "vulnerable_components (scan_component parse loads store r c) =
     vulnerable_components r @
     (if find_vulnerabilities_for_component parse loads store c \<noteq> []
      then [(c, find_vulnerabilities_for_component parse loads store c)] else [])"
  "total_components (scan_component parse loads store r c) = total_components r"
  by (simp_all add: scan_component_def Let_def foldl_record_vulnerability)

lemma foldl_scan_component:
  fixes parse :: "string \<Rightarrow> ('v::linorder) option"
  shows
  "sum_list (map snd (severity_counts (foldl (scan_component parse loads store) r cs))) =
     sum_list (map snd (severity_counts r)) +
     sum_list (map (\<lambda>c. length (find_vulnerabilities_for_component parse loads store c)) cs)
   \<and> vulnerabilities_found (foldl (scan_component parse loads store) r cs) =
       vulnerabilities_found r @
       concat (map (find_vulnerabilities_for_component parse loads store) cs)
   \<and> vulnerable_components (foldl (scan_component parse loads store) r cs) =
       vulnerable_components r @
       filter (\<lambda>(c, vs). vs \<noteq> [])
         (map (\<lambda>c. (c, find_vulnerabilities_for_component parse loads store c)) cs)
   \<and> total_components (foldl (scan_component parse loads store) r cs) = total_components r"
  by (induction cs arbitrary: r) (simp_all add: scan_component_fields)

lemma scan_components_result:
  fixes parse :: "string \<Rightarrow> ('v::linorder) option"
  shows
    "sum_list (map snd (severity_counts (scan_components parse loads store cs))) =
       sum_list (map (\<lambda>c. length (find_vulnerabilities_for_component parse loads store c)) cs)"
    "vulnerable_components (scan_components parse loads store cs) =
       filter (\<lambda>(c, vs). vs \<noteq> [])
         (map (\<lambda>c. (c, find_vulnerabilities_for_component parse loads store c)) cs)"
    "vulnerabilities_found (scan_components parse loads store cs) =
       concat (map (find_vulnerabilities_for_component parse loads store) cs)"
    "total_components (scan_components parse loads store cs) = length cs"
  unfolding scan_components_def
  by (simp_all add: foldl_scan_component initial_results_def)

text \<open>
  Claim C4 holds of the scanner adapter and fails in the matcher. A component matched by
  a stored vulnerability whose severity is \<^verbatim>\<open>NONE\<close>, which is not one of the five
  buckets, leaves the matcher's \<^verbatim>\<open>UNKNOWN\<close> bucket at 0 and adds a sixth bucket
  \<^verbatim>\<open>NONE\<close>; the adapter counts a finding of the same severity under
  \<^verbatim>\<open>UNKNOWN\<close>.
\<close>

theorem unrecognized_severity_bucket:
  "severity example_vulnerability = Some ''NONE''
   \<and> find_vulnerabilities_for_component parse_release (\<lambda>s. None)
        [example_vulnerability] example_component = [example_vulnerability]
   \<and> severity_counts (scan_components parse_release (\<lambda>s. None)
        [example_vulnerability] [example_component]) =
       [(''CRITICAL'', 0), (''HIGH'', 0), (''MEDIUM'', 0), (''LOW'', 0), (''UNKNOWN'', 0),
        (''NONE'', 1)]
   \<and> map_sum id t_severity_counts (parse_trivy_result plain_str example_report_none) =
       Inr [(''CRITICAL'', 0), (''HIGH'', 0), (''MEDIUM'', 0), (''LOW'', 0), (''UNKNOWN'', 1)]"
  by code_simp

text \<open>
  Claim C5. In the result of the matcher over any components and any stored
  vulnerabilities, the severity counts sum to the number of (component, vulnerability)
  match pairs, which is also the length of \<^verbatim>\<open>vulnerabilities_found\<close>; the vulnerable
  components are the components with at least one match, so their number is at most
  \<^verbatim>\<open>total_components\<close>, and so is \<^verbatim>\<open>vulnerable_count\<close> of the row that
  \<^verbatim>\<open>save_scan_result\<close> builds from the result.
\<close>

theorem scan_components_aggregation:
  fixes parse :: "string \<Rightarrow> ('v::linorder) option"
  shows
  "sum_list (map snd (severity_counts (scan_components parse loads store cs))) =
     sum_list (map (\<lambda>c. length (find_vulnerabilities_for_component parse loads store c)) cs)
   \<and> sum_list (map snd (severity_counts (scan_components parse loads store cs))) =
       length (vulnerabilities_found (scan_components parse loads store cs))
   \<and> vulnerable_components (scan_components parse loads store cs) =
       filter (\<lambda>(c, vs). vs \<noteq> [])
         (map (\<lambda>c. (c, find_vulnerabilities_for_component parse loads store c)) cs)
   \<and> total_components (scan_components parse loads store cs) = length cs
   \<and> length (vulnerable_components (scan_components parse loads store cs)) \<le>
       total_components (scan_components parse loads store cs)
   \<and> sr_vulnerable_count
         (completed_scan_result new_id sbom_id (scan_components parse loads store cs) d) \<le>
       sr_total_components
         (completed_scan_result new_id sbom_id (scan_components parse loads store cs) d)"
proof -
  let ?r = "scan_components parse loads store cs"
  have 1: "sum_list (map snd (severity_counts ?r)) =
     sum_list (map (\<lambda>c. length (find_vulnerabilities_for_component parse loads store c)) cs)"
    by (rule scan_components_result)
  have 2: "sum_list (map snd (severity_counts ?r)) = length (vulnerabilities_found ?r)"
    by (simp add: scan_components_result length_concat comp_def)
  have 3: "vulnerable_components ?r =
       filter (\<lambda>(c, vs). vs \<noteq> [])
         (map (\<lambda>c. (c, find_vulnerabilities_for_component parse loads store c)) cs)"
    by (rule scan_components_result)
  have 4: "total_components ?r = length cs"
    by (rule scan_components_result)
  have "length (filter (\<lambda>(c, vs). vs \<noteq> [])
         (map (\<lambda>c. (c, find_vulnerabilities_for_component parse loads store c)) cs))
        \<le> length (map (\<lambda>c. (c, find_vulnerabilities_for_component parse loads store c)) cs)"
    by (rule length_filter_le)
  with 3 4 have 5: "length (vulnerable_components ?r) \<le> total_components ?r"
    by simp
  then have 6: "sr_vulnerable_count (completed_scan_result new_id sbom_id ?r d) \<le>
       sr_total_components (completed_scan_result new_id sbom_id ?r d)"
    by (simp add: completed_scan_result_def)
  from 1 2 3 4 5 6 show ?thesis by blast
qed

theorem scan_components_aggregation_witness:
  "sum_list (map snd (severity_counts (scan_components parse_release (\<lambda>s. None)
       [example_vulnerability] [example_component, example_component]))) = 2
   \<and> length (vulnerabilities_found (scan_components parse_release (\<lambda>s. None)
       [example_vulnerability] [example_component, example_component])) = 2"
proof -
  have f: "find_vulnerabilities_for_component parse_release (\<lambda>s. None)
          [example_vulnerability] example_component = [example_vulnerability]"
    by code_simp
  note t = scan_components_aggregation
         [where parse = parse_release and loads = "\<lambda>s. None"
            and store = "[example_vulnerability]"
            and cs = "[example_component, example_component]"
            and new_id = 1 and sbom_id = "''id''" and d = 0]
  from t have a: "sum_list (map snd (severity_counts (scan_components parse_release
       (\<lambda>s. None) [example_vulnerability] [example_component, example_component]))) = 2"
    by (simp add: f)
  from t have "sum_list (map snd (severity_counts (scan_components parse_release
       (\<lambda>s. None) [example_vulnerability] [example_component, example_component]))) =
     length (vulnerabilities_found (scan_components parse_release (\<lambda>s. None)
       [example_vulnerability] [example_component, example_component]))"
    by blast
  with a show ?thesis by simp
qed


section \<open>The scanner adapter and the scan task\<close>

lemma parse_trivy_result_status:
  "parse_trivy_result py_str j = Inr p \<Longrightarrow> t_status p = ''success''"
  by (auto simp: parse_trivy_result_def and_then_Inr_iff split: prod.splits)

lemma scan_sbom_exit_ok:
  assumes "returncode r = 0 \<or> returncode r = 1" and "loads (stdout r) = Inr j"
    and "parse_trivy_result py_str j = Inr p"
  shows "scan_sbom loads py_str (Completed r) = p \<and> t_status p = ''success''"
  using assms by (auto simp: scan_sbom_def and_then_def parse_trivy_result_status)

lemma scan_sbom_bad_json:
  assumes "returncode r = 0 \<or> returncode r = 1" and "loads (stdout r) = Inl e"
  shows "scan_sbom loads py_str (Completed r) = failed_result (TrivyScanError e)"
  using assms by (auto simp: scan_sbom_def and_then_def)

lemma scan_sbom_bad_report:
  assumes "returncode r = 0 \<or> returncode r = 1" and "loads (stdout r) = Inr j"
    and "parse_trivy_result py_str j = Inl e"
  shows "scan_sbom loads py_str (Completed r) = failed_result (TrivyScanError e)"
  using assms by (auto simp: scan_sbom_def and_then_def)

lemma scan_sbom_bad_exit:
  assumes "returncode r \<noteq> 0" and "returncode r \<noteq> 1"
  shows "scan_sbom loads py_str (Completed r) = failed_result (TrivyScanFailed (stderr r))"
  using assms by (auto simp: scan_sbom_def)

text \<open>The session operations on a session written out field by field.\<close>

lemma db_add_lit:
  "db_add r \<lparr> committed = c, flushed = f, pending = p, deactivated = d, next_id = k \<rparr> =
     \<lparr> committed = c, flushed = f, pending = p @ [r], deactivated = d, next_id = k \<rparr>"
  by (simp add: db_add_def)

lemma foldl_db_add_lit:
  "foldl (\<lambda>t r. db_add r t)
     \<lparr> committed = c, flushed = f, pending = p, deactivated = d, next_id = k \<rparr> rs =
     \<lparr> committed = c, flushed = f, pending = p @ rs, deactivated = d, next_id = k \<rparr>"
  by (induction rs arbitrary: p) (simp_all add: db_add_lit)

lemma db_flush_lit:
  "db_flush accepts
     \<lparr> committed = c, flushed = f, pending = p, deactivated = False, next_id = k \<rparr> =
     (if all_accepted accepts (c @ f) p
      then (Inr (), \<lparr> committed = c, flushed = f @ p, pending = [],
                      deactivated = False, next_id = k \<rparr>)
      else (Inl DBAPIError, \<lparr> committed = c, flushed = [], pending = p,
                               deactivated = True, next_id = k \<rparr>))"
  by (simp add: db_flush_def)

lemma db_flush_deactivated_lit:
  "db_flush accepts
     \<lparr> committed = c, flushed = f, pending = p, deactivated = True, next_id = k \<rparr> =
     (Inl PendingRollbackError,
      \<lparr> committed = c, flushed = f, pending = p, deactivated = True, next_id = k \<rparr>)"
  by (simp add: db_flush_def)

lemma db_commit_lit:
  "db_commit accepts
     \<lparr> committed = c, flushed = f, pending = p, deactivated = False, next_id = k \<rparr> =
     (if all_accepted accepts (c @ f) p
      then (Inr (), \<lparr> committed = c @ f @ p, flushed = [], pending = [],
                      deactivated = False, next_id = k \<rparr>)
      else (Inl DBAPIError, \<lparr> committed = c, flushed = [], pending = p,
                               deactivated = True, next_id = k \<rparr>))"
  by (simp add: db_commit_def db_flush_lit)

lemma db_commit_deactivated_lit:
  "db_commit accepts
     \<lparr> committed = c, flushed = f, pending = p, deactivated = True, next_id = k \<rparr> =
     (Inl PendingRollbackError,
      \<lparr> committed = c, flushed = f, pending = p, deactivated = True, next_id = k \<rparr>)"
  by (simp add: db_commit_def db_flush_deactivated_lit)

lemma db_rollback_lit:
  "db_rollback \<lparr> committed = c, flushed = f, pending = p, deactivated = d, next_id = k \<rparr> =
     \<lparr> committed = c, flushed = [], pending = [], deactivated = False, next_id = k \<rparr>"
  by (simp add: db_rollback_def)

lemma fresh_id_lit:
  "fresh_id \<lparr> committed = c, flushed = f, pending = p, deactivated = d, next_id = k \<rparr> =
     (k, \<lparr> committed = c, flushed = f, pending = p, deactivated = d, next_id = Suc k \<rparr>)"
  by (simp add: fresh_id_def)

lemmas session_lit =
  db_add_lit foldl_db_add_lit db_flush_lit db_flush_deactivated_lit db_commit_lit
  db_commit_deactivated_lit db_rollback_lit fresh_id_lit

lemma record_failure_fresh:
  "record_failure env sbom_id (fresh_session rows n) =
     (if db_accepts env rows (ScanResult (failed_scan n sbom_id))
      then fresh_session (rows @ [ScanResult (failed_scan n sbom_id)]) (Suc n)
      else fresh_session rows (Suc n))"
  by (simp add: record_failure_def fresh_session_def session_lit)

lemma db_close_fresh: "db_close (fresh_session rows n) = fresh_session rows n"
  by (simp add: db_close_def db_rollback_def fresh_session_def)

lemma task_exit_code:
  assumes "is_uuid env sbom_id" and "find_sbom env sbom_id = Some sb"
    and "trivy_run env = Completed r" and "returncode r \<noteq> 0" and "returncode r \<noteq> 1"
  shows "scan_sbom_task env sbom_id (fresh_session rows n) =
     (TaskFailed (Str (Exception (TrivyScanFailed (stderr r)))),
      if db_accepts env rows (ScanResult (failed_scan n sbom_id))
      then fresh_session (rows @ [ScanResult (failed_scan n sbom_id)]) (Suc n)
      else fresh_session rows (Suc n))"
proof -
  have "scan_and_persist env sbom_id sb (fresh_session rows n) =
          (Inl (Exception (TrivyScanFailed (stderr r))), fresh_session rows n)"
    using assms(3-5) by (simp add: scan_and_persist_def scan_sbom_bad_exit failed_result_def)
  then show ?thesis
    using assms(1,2) by (simp add: scan_sbom_task_def record_failure_fresh db_close_fresh)
qed

text \<open>
  The report parser succeeds on a report without a \<^verbatim>\<open>Results\<close> key, and on the
  example report.
\<close>

lemma parse_trivy_result_no_results:
  "map_of kvs ''Results'' = None \<Longrightarrow> parse_trivy_result py_str (JObj kvs) = Inr no_findings"
  by (simp add: parse_trivy_result_def and_then_def no_findings_def)

lemma parse_trivy_result_example:
  "parse_trivy_result plain_str example_report = Inr example_parsed"
  by code_simp

lemma scan_sbom_example:
  "scan_sbom (\<lambda>s. Inr example_report) plain_str
        (Completed \<lparr> returncode = 0, stdout = ''(the report)'', stderr = [] \<rparr>) =
       example_parsed"
  "scan_sbom (\<lambda>s. Inr example_report) plain_str
        (Completed \<lparr> returncode = 1, stdout = ''(the report)'', stderr = [] \<rparr>) =
       example_parsed"
  using parse_trivy_result_example by (simp_all add: scan_sbom_def and_then_def)

text \<open>
  Claim C8. The adapter treats the exit codes 0 and 1 alike: the standard output is
  decoded and parsed, and a report that parses is returned with status
  \<^verbatim>\<open>success\<close>. Reports do parse: one whose top level has no \<^verbatim>\<open>Results\<close>
  gives the successful result without findings at both exit codes, and the example
  report gives its two findings at both exit codes. An output that does not decode, a
  report that does not parse, and every other exit code give a result with status
  \<^verbatim>\<open>failed\<close> and an error message. When the process exits with code 2, the task started on a new session returns
  its failed result with that message, the rows every reader sees afterwards are the
  old rows, followed by the \<^verbatim>\<open>failed\<close> scan result if the database accepted it,
  and no \<^verbatim>\<open>ScanVulnerability\<close> row has been added.
\<close>

theorem scan_exit_codes:
  "((returncode r = 0 \<or> returncode r = 1) \<and> loads (stdout r) = Inr j \<and>
      parse_trivy_result py_str j = Inr p \<longrightarrow>
      scan_sbom loads py_str (Completed r) = p \<and> t_status p = ''success'')
   \<and> ((returncode r = 0 \<or> returncode r = 1) \<and> loads (stdout r) = Inr (JObj kvs) \<and>
      map_of kvs ''Results'' = None \<longrightarrow>
      scan_sbom loads py_str (Completed r) = no_findings)
   \<and> t_status no_findings = ''success''
   \<and> scan_sbom (\<lambda>s. Inr example_report) plain_str
        (Completed \<lparr> returncode = 0, stdout = ''(the report)'', stderr = [] \<rparr>) =
       example_parsed
   \<and> scan_sbom (\<lambda>s. Inr example_report) plain_str
        (Completed \<lparr> returncode = 1, stdout = ''(the report)'', stderr = [] \<rparr>) =
       example_parsed
   \<and> t_status example_parsed = ''success''
   \<and> length (t_vulnerabilities example_parsed) = 2
   \<and> ((returncode r = 0 \<or> returncode r = 1) \<and> loads (stdout r) = Inl e \<longrightarrow>
      scan_sbom loads py_str (Completed r) = failed_result (TrivyScanError e))
   \<and> ((returncode r = 0 \<or> returncode r = 1) \<and> loads (stdout r) = Inr j \<and>
      parse_trivy_result py_str j = Inl e \<longrightarrow>
      scan_sbom loads py_str (Completed r) = failed_result (TrivyScanError e))
   \<and> (returncode r \<noteq> 0 \<and> returncode r \<noteq> 1 \<longrightarrow>
      scan_sbom loads py_str (Completed r) = failed_result (TrivyScanFailed (stderr r)))
   \<and> t_status (failed_result m) = ''failed''
   \<and> t_error (failed_result m) = Some m
   \<and> (is_uuid env sbom_id \<and> find_sbom env sbom_id = Some sb \<and>
      trivy_run env = Completed r \<and> returncode r = 2 \<longrightarrow>
      fst (scan_sbom_task env sbom_id (fresh_session rows n)) =
        TaskFailed (Str (Exception (TrivyScanFailed (stderr r))))
      \<and> task_status (fst (scan_sbom_task env sbom_id (fresh_session rows n))) = ''failed''
      \<and> committed (snd (scan_sbom_task env sbom_id (fresh_session rows n))) =
          (if db_accepts env rows (ScanResult (failed_scan n sbom_id))
           then rows @ [ScanResult (failed_scan n sbom_id)] else rows)
      \<and> sr_status (failed_scan n sbom_id) = ''failed''
      \<and> scan_vulnerabilities
           (committed (snd (scan_sbom_task env sbom_id (fresh_session rows n)))) =
          scan_vulnerabilities rows)"
proof -
  have a: "(returncode r = 0 \<or> returncode r = 1) \<and> loads (stdout r) = Inr j \<and>
      parse_trivy_result py_str j = Inr p \<longrightarrow>
      scan_sbom loads py_str (Completed r) = p \<and> t_status p = ''success''"
    using scan_sbom_exit_ok by blast
  have n: "(returncode r = 0 \<or> returncode r = 1) \<and> loads (stdout r) = Inr (JObj kvs) \<and>
      map_of kvs ''Results'' = None \<longrightarrow>
      scan_sbom loads py_str (Completed r) = no_findings"
    using scan_sbom_exit_ok parse_trivy_result_no_results by blast
  have x: "t_status no_findings = ''success''"
    "scan_sbom (\<lambda>s. Inr example_report) plain_str
        (Completed \<lparr> returncode = 0, stdout = ''(the report)'', stderr = [] \<rparr>) =
       example_parsed"
    "scan_sbom (\<lambda>s. Inr example_report) plain_str
        (Completed \<lparr> returncode = 1, stdout = ''(the report)'', stderr = [] \<rparr>) =
       example_parsed"
    "t_status example_parsed = ''success''"
    "length (t_vulnerabilities example_parsed) = 2"
    using scan_sbom_example by (simp_all add: no_findings_def example_parsed_def)
  have b: "(returncode r = 0 \<or> returncode r = 1) \<and> loads (stdout r) = Inl e \<longrightarrow>
      scan_sbom loads py_str (Completed r) = failed_result (TrivyScanError e)"
    using scan_sbom_bad_json by blast
  have c: "(returncode r = 0 \<or> returncode r = 1) \<and> loads (stdout r) = Inr j \<and>
      parse_trivy_result py_str j = Inl e \<longrightarrow>
      scan_sbom loads py_str (Completed r) = failed_result (TrivyScanError e)"
    using scan_sbom_bad_report by blast
  have d: "returncode r \<noteq> 0 \<and> returncode r \<noteq> 1 \<longrightarrow>
      scan_sbom loads py_str (Completed r) = failed_result (TrivyScanFailed (stderr r))"
    using scan_sbom_bad_exit by blast
  have f: "t_status (failed_result m) = ''failed''" "t_error (failed_result m) = Some m"
    by (simp_all add: failed_result_def)
  have g: "is_uuid env sbom_id \<and> find_sbom env sbom_id = Some sb \<and>
      trivy_run env = Completed r \<and> returncode r = 2 \<longrightarrow>
      fst (scan_sbom_task env sbom_id (fresh_session rows n)) =
        TaskFailed (Str (Exception (TrivyScanFailed (stderr r))))
      \<and> task_status (fst (scan_sbom_task env sbom_id (fresh_session rows n))) = ''failed''
      \<and> committed (snd (scan_sbom_task env sbom_id (fresh_session rows n))) =
          (if db_accepts env rows (ScanResult (failed_scan n sbom_id))
           then rows @ [ScanResult (failed_scan n sbom_id)] else rows)
      \<and> sr_status (failed_scan n sbom_id) = ''failed''
      \<and> scan_vulnerabilities
           (committed (snd (scan_sbom_task env sbom_id (fresh_session rows n)))) =
          scan_vulnerabilities rows"
  proof (intro impI, elim conjE)
    assume h: "is_uuid env sbom_id" "find_sbom env sbom_id = Some sb"
      "trivy_run env = Completed r" "returncode r = 2"
    then have "returncode r \<noteq> 0" "returncode r \<noteq> 1" by simp_all
    note t = task_exit_code [OF h(1) h(2) h(3) this, of rows n]
    show "fst (scan_sbom_task env sbom_id (fresh_session rows n)) =
        TaskFailed (Str (Exception (TrivyScanFailed (stderr r))))
      \<and> task_status (fst (scan_sbom_task env sbom_id (fresh_session rows n))) = ''failed''
      \<and> committed (snd (scan_sbom_task env sbom_id (fresh_session rows n))) =
          (if db_accepts env rows (ScanResult (failed_scan n sbom_id))
           then rows @ [ScanResult (failed_scan n sbom_id)] else rows)
      \<and> sr_status (failed_scan n sbom_id) = ''failed''
      \<and> scan_vulnerabilities
           (committed (snd (scan_sbom_task env sbom_id (fresh_session rows n)))) =
          scan_vulnerabilities rows"
      unfolding t
      by (simp add: fresh_session_def failed_scan_def scan_vulnerabilities_def)
  qed
  from a n x b c d f g show ?thesis by blast
qed

theorem scan_exit_codes_witness:
  "parse_trivy_result plain_str example_report = Inr example_parsed
   \<and> scan_sbom (\<lambda>s. Inr example_report) plain_str
        (Completed \<lparr> returncode = 0, stdout = ''(the report)'', stderr = [] \<rparr>) =
       example_parsed
   \<and> scan_sbom (\<lambda>s. Inr example_report) plain_str
        (Completed \<lparr> returncode = 1, stdout = ''(the report)'', stderr = [] \<rparr>) =
       example_parsed
   \<and> t_status example_parsed = ''success''
   \<and> scan_sbom (\<lambda>s. Inr (JObj [(''SchemaVersion'', JNum ''2'')])) plain_str
        (Completed \<lparr> returncode = 0, stdout = ''(the report)'', stderr = [] \<rparr>) =
       no_findings
   \<and> scan_sbom (\<lambda>s. Inl JSONDecodeError) plain_str
        (Completed \<lparr> returncode = 1, stdout = ''not json'', stderr = [] \<rparr>) =
       failed_result (TrivyScanError JSONDecodeError)
   \<and> scan_sbom (\<lambda>s. Inr example_report) plain_str
       (Completed \<lparr> returncode = 2, stdout = [], stderr = ''fatal error'' \<rparr>) =
     failed_result (TrivyScanFailed ''fatal error'')
   \<and> fst (scan_sbom_task
        (example_environment
           \<lparr> trivy_run := Completed \<lparr> returncode = 2, stdout = [], stderr = ''fatal error'' \<rparr> \<rparr>)
        ''id'' (fresh_session [] 1)) =
      TaskFailed (Str (Exception (TrivyScanFailed ''fatal error'')))
   \<and> committed (snd (scan_sbom_task
        (example_environment
           \<lparr> trivy_run := Completed \<lparr> returncode = 2, stdout = [], stderr = ''fatal error'' \<rparr> \<rparr>)
        ''id'' (fresh_session [] 1))) =
      [ScanResult (failed_scan 1 ''id'')]"
proof -
  have h: "parse_trivy_result plain_str example_report = Inr example_parsed"
    by code_simp
  have ok0: "scan_sbom (\<lambda>s. Inr example_report) plain_str
        (Completed \<lparr> returncode = 0, stdout = ''(the report)'', stderr = [] \<rparr>) =
       example_parsed \<and> t_status example_parsed = ''success''"
    using scan_exit_codes
      [where r = "\<lparr> returncode = 0, stdout = ''(the report)'', stderr = [] \<rparr>"
         and loads = "\<lambda>s. Inr example_report" and py_str = plain_str
         and j = example_report and p = example_parsed] h
    by simp
  have ok1: "scan_sbom (\<lambda>s. Inr example_report) plain_str
        (Completed \<lparr> returncode = 1, stdout = ''(the report)'', stderr = [] \<rparr>) =
       example_parsed"
    using scan_exit_codes
      [where r = "\<lparr> returncode = 1, stdout = ''(the report)'', stderr = [] \<rparr>"
         and loads = "\<lambda>s. Inr example_report" and py_str = plain_str
         and j = example_report and p = example_parsed] h
    by simp
  have none: "scan_sbom (\<lambda>s. Inr (JObj [(''SchemaVersion'', JNum ''2'')])) plain_str
        (Completed \<lparr> returncode = 0, stdout = ''(the report)'', stderr = [] \<rparr>) =
       no_findings"
    using scan_exit_codes
      [where r = "\<lparr> returncode = 0, stdout = ''(the report)'', stderr = [] \<rparr>"
         and loads = "\<lambda>s. Inr (JObj [(''SchemaVersion'', JNum ''2'')])"
         and py_str = plain_str and kvs = "[(''SchemaVersion'', JNum ''2'')]"]
    by simp
  have bad: "scan_sbom (\<lambda>s. Inl JSONDecodeError) plain_str
        (Completed \<lparr> returncode = 1, stdout = ''not json'', stderr = [] \<rparr>) =
       failed_result (TrivyScanError JSONDecodeError)"
    using scan_exit_codes
      [where r = "\<lparr> returncode = 1, stdout = ''not json'', stderr = [] \<rparr>"
         and loads = "\<lambda>s. Inl JSONDecodeError" and py_str = plain_str
         and e = JSONDecodeError]
    by simp
  have two: "scan_sbom (\<lambda>s. Inr example_report) plain_str
       (Completed \<lparr> returncode = 2, stdout = [], stderr = ''fatal error'' \<rparr>) =
     failed_result (TrivyScanFailed ''fatal error'')
   \<and> fst (scan_sbom_task
        (example_environment
           \<lparr> trivy_run := Completed \<lparr> returncode = 2, stdout = [], stderr = ''fatal error'' \<rparr> \<rparr>)
        ''id'' (fresh_session [] 1)) =
      TaskFailed (Str (Exception (TrivyScanFailed ''fatal error'')))
   \<and> committed (snd (scan_sbom_task
        (example_environment
           \<lparr> trivy_run := Completed \<lparr> returncode = 2, stdout = [], stderr = ''fatal error'' \<rparr> \<rparr>)
        ''id'' (fresh_session [] 1))) =
      [ScanResult (failed_scan 1 ''id'')]"
    using scan_exit_codes
      [where r = "\<lparr> returncode = 2, stdout = [], stderr = ''fatal error'' \<rparr>"
         and loads = "\<lambda>s. Inr example_report" and py_str = plain_str
         and env = "example_environment
           \<lparr> trivy_run := Completed \<lparr> returncode = 2, stdout = [], stderr = ''fatal error'' \<rparr> \<rparr>"
         and sbom_id = "''id''" and sb = example_sbom and rows = "[]" and n = 1]
    by (simp add: example_environment_def)
  from h ok0 ok1 none bad two show ?thesis by blast
qed


section \<open>Atomic persistence\<close>

text \<open>
  \<^verbatim>\<open>VulnerabilityScanner.save_scan_result\<close> on a new session is atomic: when it
  raises, the rows every reader sees are the old rows, and when it returns they are the
  old rows, the scan result and all of its association rows.
\<close>

lemma save_scan_result_atomic:
  "committed (snd (save_scan_result accepts loads sbom_id results d (fresh_session rows n))) =
     (case fst (save_scan_result accepts loads sbom_id results d (fresh_session rows n)) of
        Inl e \<Rightarrow> rows
      | Inr sr \<Rightarrow> rows @ ScanResult sr # scan_vulnerability_rows loads (sr_id sr) results)"
  by (simp add: save_scan_result_def fresh_session_def session_lit Let_def
      completed_scan_result_def)

text \<open>
  Claim C9 fails in the scan task of the worker. The scanner reports two findings; the
  first is written, and building the vulnerability of the second raises
  \<^verbatim>\<open>ValueError\<close> on its date. The handler of the task then commits its
  \<^verbatim>\<open>failed\<close> result on the same session without rolling it back, and with it the
  \<^verbatim>\<open>completed\<close> result of the scan and the one association row written so far:
  the task has failed, and readers see a completed scan result with one of its two
  association rows.
\<close>

theorem worker_commits_partial_scan:
  "task_status (fst (scan_sbom_task example_environment ''id'' (fresh_session [] 1))) =
     ''failed''
   \<and> map_sum id total_vulnerabilities (parse_trivy_result plain_str example_report) =
       Inr (Some 2)
   \<and> rows_of_scan 1
        (committed (snd (scan_sbom_task example_environment ''id'' (fresh_session [] 1)))) =
       [ScanResult
          \<lparr> sr_id = 1, sr_sbom_id = ''id'', sr_status = ''completed'',
            sr_total_components = 2, sr_vulnerable_count = 2,
            critical_count = 2, high_count = 0, medium_count = 0, low_count = 0,
            scan_duration_seconds = Some 3 \<rparr>,
        ScanVulnerability
          \<lparr> scan_result_id = 1, vulnerability_id = 2,
            component_name = JStr ''log4j-core'', component_version = JStr ''2.14.1'',
            matched_cpe = JStr ''bom.json'' \<rparr>]"
  by code_simp

end
